theory Spec2Isabelle
  imports Complex_Main "HOL-Library.AList"
begin

section \<open>The MCP bridge of codex-cli: \<^verbatim>\<open>src/utils/agent/mcp.ts\<close>\<close>

text \<open>
  The module has two exported functions. \<^verbatim>\<open>getMcpToolDefinitions\<close> turns the registry of
  configured servers into function descriptors; \<^verbatim>\<open>handleMcpFunctionCall\<close> routes one
  function call to a server, through a module-level cache of connected clients.

  The embedding is shallow. What the module computes itself is defined here; what it
  obtains from the JavaScript runtime and from the MCP SDK (\<^verbatim>\<open>JSON.parse\<close>,
  \<^verbatim>\<open>JSON.stringify\<close>, string conversion, \<^verbatim>\<open>new URL\<close>, \<^verbatim>\<open>client.connect\<close>,
  \<^verbatim>\<open>client.callTool\<close>, \<^verbatim>\<open>Date.now\<close>, the constants of \<^verbatim>\<open>session.js\<close>) is a field of a
  record of parameters, so every theorem holds for every runtime and every transport.
\<close>

subsection \<open>Values\<close>

text \<open>
  JavaScript data as far as the module looks at it: the values \<^verbatim>\<open>JSON.parse\<close> can return.
  An object is the list of its own properties in the object's own key order.
  \<^verbatim>\<open>undefined\<close>, the result of reading a property that is not there, is \<open>None\<close> of
  \<open>json option\<close>. Numbers are the exact rationals; the doubles of the runtime are not
  modelled.
\<close>

datatype json =
    JNull
  | JBool bool
  | JNum rat
  | JStr string
  | JArr "json list"
  | JObj "(string \<times> json) list"

text \<open>
  What a \<^verbatim>\<open>throw\<close> or a rejected promise carries. The module looks at such a value only
  in lines 97 and 98, \<^verbatim>\<open>err instanceof Error ? err.message : String(err)\<close> and the template
  that takes the result:
  \<^item> \<open>TypeError m\<close>: a \<open>TypeError\<close> raised by the runtime, with message \<open>m\<close>;
  \<^item> \<open>Error m\<close>: any other instance of \<open>Error\<close>, with a string \<open>m\<close> as its message;
  \<^item> \<open>NonError s\<close>: a value that is no \<open>Error\<close> and that \<^verbatim>\<open>String\<close> converts to \<open>s\<close>;
  \<^item> \<open>Unprintable t\<close>: a value of which the two lines make no text, because the conversion
    itself throws \<open>t\<close> (an object without a prototype, an object whose \<^verbatim>\<open>toString\<close> throws,
    an \<open>Error\<close> whose \<^verbatim>\<open>message\<close> cannot be converted).
\<close>

datatype thrown =
    TypeError string
  | Error string
  | NonError string
  | Unprintable thrown

text \<open>
  Lines 97 and 98: the text after \<^verbatim>\<open>"MCP error: "\<close>, or what the conversion throws.
\<close>

fun error_text :: "thrown \<Rightarrow> thrown + string" where
  "error_text (TypeError m) = Inr m"
| "error_text (Error m) = Inr m"
| "error_text (NonError s) = Inr s"
| "error_text (Unprintable t) = Inl t"

text \<open>The places where the runtime itself raises a \<open>TypeError\<close> in this module.\<close>

datatype fault =
    DestructureNull
  | ReadOfNull string
  | ReadOfUndefined string
  | NotAFunction string

subsection \<open>Plain objects used as maps\<close>

text \<open>
  The registry and the cache are plain objects, read with \<^verbatim>\<open>obj[key]\<close>. Such a read finds
  an own property, or else a member of \<^verbatim>\<open>Object.prototype\<close>, or else nothing. The names
  below are the members of \<^verbatim>\<open>Object.prototype\<close> (ECMAScript, sections 20.1.3 and B.2.2);
  the value of each is a function, or the prototype itself for \<^verbatim>\<open>__proto__\<close>: it is truthy,
  and it has neither a \<^verbatim>\<open>url\<close> nor a \<^verbatim>\<open>callTool\<close>.
\<close>

definition Object_prototype_names :: "string list" where
  "Object_prototype_names =
     [''constructor'', ''hasOwnProperty'', ''isPrototypeOf'', ''propertyIsEnumerable'',
      ''toLocaleString'', ''toString'', ''valueOf'', ''__proto__'',
      ''__defineGetter__'', ''__defineSetter__'', ''__lookupGetter__'', ''__lookupSetter__'']"

datatype 'a property =
    Own 'a
  | Inherited
  | Undefined

text \<open>\<^verbatim>\<open>obj[key]\<close> on a plain object whose own properties are the list.\<close>

definition lookup :: "(string \<times> 'a) list \<Rightarrow> string \<Rightarrow> 'a property" where
  "lookup obj key =
     (case map_of obj key of
        Some v \<Rightarrow> Own v
      | None \<Rightarrow> if key \<in> set Object_prototype_names then Inherited else Undefined)"

subsection \<open>The registry and the descriptors\<close>

text \<open>
  \<^verbatim>\<open>Record<string, { url: string }>\<close>: the registry's own entries, in the order
  \<^verbatim>\<open>Object.entries\<close> enumerates them. \<^verbatim>\<open>Object.entries\<close> sees own entries only;
  \<^verbatim>\<open>servers[serverName]\<close> is a \<open>lookup\<close>.
\<close>

record server =
  url :: string

type_synonym registry = "(string \<times> server) list"

text \<open>The literal of lines 20 to 28.\<close>

definition parameters_schema :: json where
  "parameters_schema =
     JObj [(''type'', JStr ''object''),
           (''properties'',
              JObj [(''name'', JObj [(''type'', JStr ''string''), (''description'', JStr ''Tool name'')]),
                    (''args'', JObj [(''type'', JStr ''object''), (''description'', JStr ''Tool args'')])]),
           (''required'', JArr [JStr ''name'', JStr ''args'']),
           (''additionalProperties'', JBool False)]"

text \<open>The object literal of lines 15 to 29, for one server name.\<close>

definition tool_definition :: "string \<Rightarrow> json" where
  "tool_definition serverName =
     JObj [(''type'', JStr ''function''),
           (''name'', JStr serverName),
           (''description'', JStr (''Call remote MCP server '' @ [CHR 0x27] @ serverName @ [CHR 0x27] @ '' tool'')),
           (''strict'', JBool False),
           (''parameters'', parameters_schema)]"

text \<open>Lines 11 to 30. The optional parameter is an \<open>option\<close>.\<close>

definition getMcpToolDefinitions :: "registry option \<Rightarrow> json list" where
  "getMcpToolDefinitions servers =
     (case servers of
        None \<Rightarrow> []
      | Some entries \<Rightarrow> map (\<lambda>(serverName, _). tool_definition serverName) entries)"

subsection \<open>The runtime and the transport\<close>

text \<open>
  A client of the SDK, as the module builds it in lines 75 to 78: the client information
  \<^verbatim>\<open>{name: ORIGIN, version: CLI_VERSION}\<close> and the URL of its SSE transport.
\<close>

datatype client = Client (info_name: string) (info_version: string) (transport_url: string)

text \<open>
  Everything the module calls and does not define. \<open>'w\<close> is the state of the world outside
  the module (the network, the clock); \<^verbatim>\<open>connect\<close> and \<^verbatim>\<open>callTool\<close> are awaited and change
  it, \<^verbatim>\<open>Date.now()\<close> reads it.
  \<^item> \<open>JSON_parse\<close>: \<open>None\<close> when \<^verbatim>\<open>JSON.parse\<close> throws;
  \<^item> \<open>ToString\<close>: the conversion \<^verbatim>\<open>Array.prototype.join\<close> applies to an element that is
    neither \<open>null\<close> nor \<open>undefined\<close> nor a string; it can throw;
  \<^item> \<open>fault_message\<close>: the message of the \<open>TypeError\<close> the runtime raises at a fault;
  \<^item> \<open>new_URL\<close>: the \<open>URL\<close> constructor, which throws on a string that is no URL;
  \<^item> \<open>connect\<close>: \<open>Some e\<close> when the promise is rejected with \<open>e\<close>;
  \<^item> \<open>callTool\<close>: client, tool name, arguments; \<open>Inl e\<close> when it throws or rejects.
\<close>

record 'w runtime =
  ORIGIN :: string
  CLI_VERSION :: string
  JSON_parse :: "string \<Rightarrow> json option"
  JSON_stringify :: "json \<Rightarrow> string"
  ToString :: "json \<Rightarrow> thrown + string"
  fault_message :: "fault \<Rightarrow> string"
  new_URL :: "string \<Rightarrow> thrown + string"
  connect :: "client \<Rightarrow> 'w \<Rightarrow> thrown option \<times> 'w"
  callTool :: "client \<Rightarrow> string \<Rightarrow> json \<Rightarrow> 'w \<Rightarrow> (thrown + json) \<times> 'w"
  Date_now :: "'w \<Rightarrow> int"

text \<open>The operations the module performs on the transport, in the order it performs them.\<close>

datatype event =
    Connect client
  | CallTool client string json

text \<open>
  The state a call runs in: the module-level object \<^verbatim>\<open>mcpClients\<close> of line 6 (its own
  properties, read with \<open>lookup\<close>, written with \<open>AList.update\<close>, which replaces the value of
  a key that is there and appends a key that is not, as a property assignment does),
  the world, and the record of the transport operations performed so far.
\<close>

record 'w state =
  mcpClients :: "(string \<times> client) list"
  world :: 'w
  calls :: "event list"

text \<open>Line 6: the cache of a freshly loaded module.\<close>

definition initial :: "'w \<Rightarrow> 'w state" where
  "initial w = \<lparr>mcpClients = [], world = w, calls = []\<rparr>"

subsection \<open>The output records\<close>

record FunctionCallOutput =
  type :: string
  call_id :: string
  "output" :: string

text \<open>Lines 44 to 46.\<close>

definition formatRaw :: "string \<Rightarrow> string \<Rightarrow> FunctionCallOutput list" where
  "formatRaw callId raw = [\<lparr>type = ''function_call_output'', call_id = callId, output = raw\<rparr>]"

text \<open>The object that line 55 serialises.\<close>

definition envelope :: "string \<Rightarrow> int \<Rightarrow> rat \<Rightarrow> json" where
  "envelope out exit_code duration_seconds =
     JObj [(''output'', JStr out),
           (''metadata'', JObj [(''exit_code'', JNum (of_int exit_code)),
                                (''duration_seconds'', JNum duration_seconds)])]"

text \<open>Lines 48 to 56.\<close>

definition formatOutput :: "'w runtime \<Rightarrow> string \<Rightarrow> string \<Rightarrow> int \<Rightarrow> rat \<Rightarrow> FunctionCallOutput" where
  "formatOutput rt callId out exit_code duration_seconds =
     \<lparr>type = ''function_call_output'', call_id = callId,
      output = JSON_stringify rt (envelope out exit_code duration_seconds)\<rparr>"

text \<open>\<^verbatim>\<open>Math.round\<close>: the nearest integer, a tie going up.\<close>

definition Math_round :: "rat \<Rightarrow> int" where
  "Math_round x = \<lfloor>x + 1 / 2\<rfloor>"

text \<open>
  Line 85, \<^verbatim>\<open>Math.round((Date.now() - start) / 100) / 10\<close>, with the reading of the clock as
  its second argument.
\<close>

definition getDuration :: "int \<Rightarrow> int \<Rightarrow> rat" where
  "getDuration start now = of_int (Math_round (of_int (now - start) / 100)) / 10"

subsection \<open>Reading the response\<close>

text \<open>
  An own property of a value that is not \<open>null\<close>. The module reads only \<^verbatim>\<open>name\<close>,
  \<^verbatim>\<open>args\<close>, \<^verbatim>\<open>content\<close> and \<^verbatim>\<open>text\<close>, which no prototype of a parsed value defines, so
  a value that is not an object has none of them.
\<close>

fun own_prop :: "json \<Rightarrow> string \<Rightarrow> json option" where
  "own_prop (JObj kvs) k = map_of kvs k"
| "own_prop _ k = None"

text \<open>\<^verbatim>\<open>v.k\<close>: reading a property of \<open>null\<close> throws.\<close>

definition read_prop :: "'w runtime \<Rightarrow> json \<Rightarrow> string \<Rightarrow> thrown + json option" where
  "read_prop rt v k =
     (case v of
        JNull \<Rightarrow> Inl (TypeError (fault_message rt (ReadOfNull k)))
      | _ \<Rightarrow> Inr (own_prop v k))"

text \<open>A callback applied along a list; the first throw ends it.\<close>

fun map_throw :: "('a \<Rightarrow> thrown + 'b) \<Rightarrow> 'a list \<Rightarrow> thrown + 'b list" where
  "map_throw f [] = Inr []"
| "map_throw f (x # xs) =
     (case f x of
        Inl e \<Rightarrow> Inl e
      | Inr y \<Rightarrow> (case map_throw f xs of Inl e \<Rightarrow> Inl e | Inr ys \<Rightarrow> Inr (y # ys)))"

text \<open>
  \<^verbatim>\<open>Array.prototype.join\<close>: \<open>undefined\<close> and \<open>null\<close> give the empty string, a string gives
  itself, any other element is converted by the runtime.
\<close>

fun join_element :: "'w runtime \<Rightarrow> json option \<Rightarrow> thrown + string" where
  "join_element rt None = Inr []"
| "join_element rt (Some JNull) = Inr []"
| "join_element rt (Some (JStr s)) = Inr s"
| "join_element rt (Some v) = ToString rt v"

fun join :: "string \<Rightarrow> string list \<Rightarrow> string" where
  "join sep [] = []"
| "join sep [s] = s"
| "join sep (s # t # ts) = s @ sep @ join sep (t # ts)"

definition Array_join :: "'w runtime \<Rightarrow> string \<Rightarrow> json option list \<Rightarrow> thrown + string" where
  "Array_join rt sep elems =
     (case map_throw (join_element rt) elems of
        Inl e \<Rightarrow> Inl e
      | Inr strs \<Rightarrow> Inr (join sep strs))"

text \<open>Lines 92 to 94.\<close>

definition outputText :: "'w runtime \<Rightarrow> json \<Rightarrow> thrown + string" where
  "outputText rt response =
     (case read_prop rt response ''content'' of
        Inl e \<Rightarrow> Inl e
      | Inr (Some (JArr content)) \<Rightarrow>
          (case map_throw (\<lambda>c. read_prop rt c ''text'') content of
             Inl e \<Rightarrow> Inl e
           | Inr texts \<Rightarrow> Array_join rt [CHR 0x0A] texts)
      | Inr _ \<Rightarrow> Inr (JSON_stringify rt response))"

subsection \<open>The call router\<close>

text \<open>Line 42, \<^verbatim>\<open>rawArguments ?? "{}"\<close>.\<close>

definition paramsRaw :: "string option \<Rightarrow> string" where
  "paramsRaw rawArguments = (case rawArguments of None \<Rightarrow> ''{}'' | Some raw \<Rightarrow> raw)"

text \<open>
  Line 69 on an object: the rest \<^verbatim>\<open>...other\<close> is the object without \<^verbatim>\<open>name\<close> and \<^verbatim>\<open>args\<close>.
\<close>

definition other :: "(string \<times> json) list \<Rightarrow> json" where
  "other kvs = JObj (filter (\<lambda>(k, v). k \<noteq> ''name'' \<and> k \<noteq> ''args'') kvs)"

text \<open>Line 72, \<^verbatim>\<open>args ?? other\<close>: \<open>other\<close> when \<^verbatim>\<open>args\<close> is \<open>undefined\<close> or \<open>null\<close>.\<close>

definition callArgs :: "(string \<times> json) list \<Rightarrow> json" where
  "callArgs kvs =
     (case map_of kvs ''args'' of
        None \<Rightarrow> other kvs
      | Some JNull \<Rightarrow> other kvs
      | Some args \<Rightarrow> args)"

text \<open>
  Lines 74 to 81, and what line 88 then reads from the cache. \<open>entry\<close> is what
  \<^verbatim>\<open>servers[serverName]\<close> gives. The cache is tested with \<^verbatim>\<open>!mcpClients[serverName]\<close>, which
  an inherited member fails as a client does. A failure of \<^verbatim>\<open>new URL\<close> or of \<^verbatim>\<open>connect\<close>
  is not caught: it leaves the function. Line 77 on an entry that is no own entry reads
  \<^verbatim>\<open>url\<close> of \<open>undefined\<close>, which throws, or of an inherited member, which is \<open>undefined\<close>
  and is converted to the string \<^verbatim>\<open>undefined\<close>; \<open>connects_own_entries\<close> below shows that
  the function does not get there.
\<close>

definition ensure_client ::
  "'w runtime \<Rightarrow> server property \<Rightarrow> string \<Rightarrow> 'w state
     \<Rightarrow> (thrown + client property) \<times> 'w state" where
  "ensure_client rt entry serverName st =
     (case lookup (mcpClients st) serverName of
        Own cached \<Rightarrow> (Inr (Own cached), st)
      | Inherited \<Rightarrow> (Inr Inherited, st)
      | Undefined \<Rightarrow>
          (case (case entry of
                   Own cfg \<Rightarrow> new_URL rt (url cfg)
                 | Inherited \<Rightarrow> new_URL rt ''undefined''
                 | Undefined \<Rightarrow> Inl (TypeError (fault_message rt (ReadOfUndefined ''url'')))) of
             Inl e \<Rightarrow> (Inl e, st)
           | Inr href \<Rightarrow>
               (let client = Client (ORIGIN rt) (CLI_VERSION rt) href;
                    (failure, w) = connect rt client (world st);
                    st' = st\<lparr>world := w, calls := calls st @ [Connect client]\<rparr>
                in case failure of
                     Some e \<Rightarrow> (Inl e, st')
                   | None \<Rightarrow>
                       (Inr (Own client),
                        st'\<lparr>mcpClients := AList.update serverName client (mcpClients st')\<rparr>))))"

text \<open>
  Lines 88 to 91, \<^verbatim>\<open>mcpClients[serverName].callTool({...})\<close>: the call of the transport on a
  client. An inherited member has no \<^verbatim>\<open>callTool\<close>, so calling it throws before anything
  reaches the transport.
\<close>

definition call_entry ::
  "'w runtime \<Rightarrow> client property \<Rightarrow> string \<Rightarrow> json \<Rightarrow> 'w state
     \<Rightarrow> (thrown + json) \<times> 'w state" where
  "call_entry rt cached toolName args st =
     (case cached of
        Own client \<Rightarrow>
          (let (result, w) = callTool rt client toolName args (world st)
           in (result, st\<lparr>world := w, calls := calls st @ [CallTool client toolName args]\<rparr>))
      | Inherited \<Rightarrow> (Inl (TypeError (fault_message rt (NotAFunction ''callTool''))), st)
      | Undefined \<Rightarrow> (Inl (TypeError (fault_message rt (ReadOfUndefined ''callTool''))), st))"

text \<open>
  Lines 83 to 99. Everything between \<^verbatim>\<open>try\<close> and \<^verbatim>\<open>catch\<close> that throws, the call or the
  reading of its response, ends in the \<^verbatim>\<open>catch\<close> block; what the \<^verbatim>\<open>catch\<close> block itself
  throws leaves the function. The code between the two readings of the clock is the
  awaited call; the rest takes no time in the model.
\<close>

definition invoke ::
  "'w runtime \<Rightarrow> string \<Rightarrow> client property \<Rightarrow> string \<Rightarrow> json \<Rightarrow> 'w state
     \<Rightarrow> (thrown + FunctionCallOutput list) \<times> 'w state" where
  "invoke rt callId cached toolName args st =
     (let start = Date_now rt (world st);
          (result, st') = call_entry rt cached toolName args st;
          duration = getDuration start (Date_now rt (world st'))
      in case (case result of Inl err \<Rightarrow> Inl err | Inr response \<Rightarrow> outputText rt response) of
           Inr text \<Rightarrow> (Inr [formatOutput rt callId text 0 duration], st')
         | Inl err \<Rightarrow>
             (case error_text err of
                Inr msg \<Rightarrow> (Inr [formatOutput rt callId (''MCP error: '' @ msg) 1 duration], st')
              | Inl t \<Rightarrow> (Inl t, st')))"

text \<open>
  Lines 36 to 99. The result is \<open>Inl e\<close> when the promise is rejected with \<open>e\<close>, and
  \<open>Inr records\<close> when it is fulfilled. Line 58 lets every name pass under which
  \<^verbatim>\<open>servers[serverName]\<close> finds something, own or inherited. A parsed value that is
  neither \<open>null\<close> nor an object has no \<^verbatim>\<open>name\<close>, so line 70 returns; destructuring
  \<open>null\<close> in line 69 throws, outside every \<^verbatim>\<open>try\<close>.
\<close>

definition handleMcpFunctionCall ::
  "'w runtime \<Rightarrow> registry \<Rightarrow> string \<Rightarrow> string option \<Rightarrow> string \<Rightarrow> 'w state
     \<Rightarrow> (thrown + FunctionCallOutput list) \<times> 'w state" where
  "handleMcpFunctionCall rt servers serverName rawArguments callId st =
     (case lookup servers serverName of
        Undefined \<Rightarrow> (Inr (formatRaw callId (paramsRaw rawArguments)), st)
      | entry \<Rightarrow>
          (case JSON_parse rt (paramsRaw rawArguments) of
             None \<Rightarrow> (Inr (formatRaw callId (paramsRaw rawArguments)), st)
           | Some JNull \<Rightarrow> (Inl (TypeError (fault_message rt DestructureNull)), st)
           | Some (JObj kvs) \<Rightarrow>
               (case map_of kvs ''name'' of
                  Some (JStr toolName) \<Rightarrow>
                    (case ensure_client rt entry serverName st of
                       (Inl e, st') \<Rightarrow> (Inl e, st')
                     | (Inr cached, st') \<Rightarrow> invoke rt callId cached toolName (callArgs kvs) st')
                | _ \<Rightarrow> (Inr (formatRaw callId (paramsRaw rawArguments)), st))
           | Some _ \<Rightarrow> (Inr (formatRaw callId (paramsRaw rawArguments)), st)))"

text \<open>
  The caller: one call after the other, each awaited, whether it was fulfilled or
  rejected. A request is the registry, the server name, the arguments and the call id.
\<close>

type_synonym request = "registry \<times> string \<times> string option \<times> string"




fun run :: "'w runtime \<Rightarrow> request list \<Rightarrow> 'w state \<Rightarrow> 'w state" where
  "run rt [] st = st"
| "run rt ((servers, serverName, rawArguments, callId) # rest) st =
     run rt rest (snd (handleMcpFunctionCall rt servers serverName rawArguments callId st))"

subsection \<open>A runtime and a transport to run the module on\<close>

text \<open>
  A test double, used to evaluate the definitions on concrete calls. Its world is the
  clock, in milliseconds. \<open>JSON_parse\<close> is a table of the values of \<^verbatim>\<open>JSON.parse\<close> at the
  strings used below; every other string is rejected. The serialiser prints a number
  with at most one decimal and escapes quotes, backslashes and newlines only.
\<close>

fun decimal :: "nat \<Rightarrow> string" where
  "decimal n =
     (if n < 10 then [''0123456789'' ! n]
      else decimal (n div 10) @ [''0123456789'' ! (n mod 10)])"

definition quote :: "string \<Rightarrow> string" where
  "quote s =
     [CHR 0x22]
     @ concat (map (\<lambda>c. if c = CHR 0x22 \<or> c = CHR 0x5C then [CHR 0x5C, c]
                       else if c = CHR 0x0A then [CHR 0x5C, CHR ''n'']
                       else [c]) s)
     @ [CHR 0x22]"

definition show_number :: "rat \<Rightarrow> string" where
  "show_number q =
     (if q < 0 then ''-'' else [])
     @ decimal (nat \<lfloor>\<bar>q\<bar>\<rfloor>)
     @ (if \<bar>q\<bar> = of_int \<lfloor>\<bar>q\<bar>\<rfloor> then []
        else ''.'' @ decimal (nat (\<lfloor>\<bar>q\<bar> * 10\<rfloor> mod 10)))"

fun show_json :: "json \<Rightarrow> string" where
  "show_json JNull = ''null''"
| "show_json (JBool b) = (if b then ''true'' else ''false'')"
| "show_json (JNum q) = show_number q"
| "show_json (JStr s) = quote s"
| "show_json (JArr xs) = ''['' @ join '','' (map show_json xs) @ '']''"
| "show_json (JObj kvs) =
     ''{'' @ join '','' (map (\<lambda>(k, v). quote k @ '':'' @ show_json v) kvs) @ ''}''"

definition demo_parse :: "string \<Rightarrow> json option" where
  \<open>demo_parse s =
     (if s = ''null'' then Some JNull
      else if s = ''{}'' then Some (JObj [])
      else if s = ''[1]'' then Some (JArr [JNum 1])
      else if s = ''{"name":"echo","args":{"x":1}}'' then
        Some (JObj [(''name'', JStr ''echo''), (''args'', JObj [(''x'', JNum 1)])])
      else if s = ''{"name":"boom","args":{}}'' then
        Some (JObj [(''name'', JStr ''boom''), (''args'', JObj [])])
      else if s = ''{"name":"nothing","args":{}}'' then
        Some (JObj [(''name'', JStr ''nothing''), (''args'', JObj [])])
      else if s = ''{"name":"list","args":{}}'' then
        Some (JObj [(''name'', JStr ''list''), (''args'', JObj [])])
      else if s = ''{"name":"busy","args":{}}'' then
        Some (JObj [(''name'', JStr ''busy''), (''args'', JObj [])])
      else if s = ''{"name":"opaque","args":{}}'' then
        Some (JObj [(''name'', JStr ''opaque''), (''args'', JObj [])])
      else if s = ''{"name":"t","foo":"bar"}'' then
        Some (JObj [(''name'', JStr ''t''), (''foo'', JStr ''bar'')])
      else if s = ''{"name":"t","args":null,"foo":"bar"}'' then
        Some (JObj [(''name'', JStr ''t''), (''args'', JNull), (''foo'', JStr ''bar'')])
      else None)\<close>

text \<open>
  The tool \<^verbatim>\<open>echo\<close> answers \<^verbatim>\<open>{content: [{text: "hi"}]}\<close> after 250 ms; \<^verbatim>\<open>list\<close> answers
  three content items, two texts around an image, after 20 ms; \<^verbatim>\<open>boom\<close> is rejected with
  \<^verbatim>\<open>new Error("boom")\<close> after 120 ms; \<^verbatim>\<open>busy\<close> is rejected with the string \<^verbatim>\<open>"busy"\<close>;
  \<^verbatim>\<open>opaque\<close> is rejected with \<^verbatim>\<open>Object.create(null)\<close>, which \<^verbatim>\<open>String\<close> cannot convert; \<^verbatim>\<open>nothing\<close> answers \<open>null\<close>; any other tool answers
  \<^verbatim>\<open>{toolResult: arguments}\<close>.
\<close>

definition demo_callTool :: "client \<Rightarrow> string \<Rightarrow> json \<Rightarrow> int \<Rightarrow> (thrown + json) \<times> int" where
  "demo_callTool c toolName args w =
     (if toolName = ''echo'' then
        (Inr (JObj [(''content'', JArr [JObj [(''text'', JStr ''hi'')]])]), w + 250)
      else if toolName = ''list'' then
        (Inr (JObj [(''content'',
                     JArr [JObj [(''type'', JStr ''text''), (''text'', JStr ''a'')],
                           JObj [(''type'', JStr ''image''), (''data'', JStr ''AAAA'')],
                           JObj [(''type'', JStr ''text''), (''text'', JStr ''b'')]])]), w + 20)
      else if toolName = ''boom'' then (Inl (Error ''boom''), w + 120)
      else if toolName = ''busy'' then (Inl (NonError ''busy''), w + 10)
      else if toolName = ''opaque'' then
        (Inl (Unprintable (TypeError ''Cannot convert object to primitive value'')), w + 10)
      else if toolName = ''nothing'' then (Inr JNull, w + 10)
      else (Inr (JObj [(''toolResult'', args)]), w + 10))"

text \<open>The server at \<^verbatim>\<open>http://down.example/sse\<close> refuses connections; every other accepts.\<close>

definition demo_connect :: "client \<Rightarrow> int \<Rightarrow> thrown option \<times> int" where
  "demo_connect c w =
     (if transport_url c = ''http://down.example/sse''
      then (Some (Error ''connect ECONNREFUSED''), w + 30)
      else (None, w + 40))"

definition demo_fault_message :: "fault \<Rightarrow> string" where
  "demo_fault_message f =
     (case f of
        DestructureNull \<Rightarrow> ''Cannot destructure null''
      | ReadOfNull k \<Rightarrow> ''Cannot read properties of null (reading '' @ [CHR 0x27] @ k @ [CHR 0x27] @ '')''
      | ReadOfUndefined k \<Rightarrow>
          ''Cannot read properties of undefined (reading '' @ [CHR 0x27] @ k @ [CHR 0x27] @ '')''
      | NotAFunction k \<Rightarrow> ''mcpClients[serverName].'' @ k @ '' is not a function'')"

definition demo :: "int runtime" where
  "demo =
     \<lparr>ORIGIN = ''codex_cli_ts'', CLI_VERSION = ''0.1.0'',
      JSON_parse = demo_parse,
      JSON_stringify = show_json,
      ToString = (\<lambda>v. Inr (show_json v)),
      fault_message = demo_fault_message,
      new_URL = (\<lambda>s. if take 7 s = ''http://'' then Inr s else Inl (TypeError ''Invalid URL'')),
      connect = demo_connect,
      callTool = demo_callTool,
      Date_now = (\<lambda>w. w)\<rparr>"

definition demo_servers :: registry where
  "demo_servers =
     [(''files'', \<lparr>url = ''http://files.example/sse''\<rparr>),
      (''down'', \<lparr>url = ''http://down.example/sse''\<rparr>)]"

definition files_client :: client where
  "files_client = Client ''codex_cli_ts'' ''0.1.0'' ''http://files.example/sse''"

definition down_client :: client where
  "down_client = Client ''codex_cli_ts'' ''0.1.0'' ''http://down.example/sse''"

text \<open>A registry with a server whose name \<^verbatim>\<open>Object.prototype\<close> defines as well.\<close>

definition prototype_servers :: registry where
  "prototype_servers = [(''constructor'', \<lparr>url = ''http://ctor.example/sse''\<rparr>)]"

section \<open>The schema generator\<close>

lemma own_prop_tool_definition:
  "own_prop (tool_definition k) ''type'' = Some (JStr ''function'')"
  "own_prop (tool_definition k) ''name'' = Some (JStr k)"
  "own_prop (tool_definition k) ''strict'' = Some (JBool False)"
  "own_prop (tool_definition k) ''parameters'' = Some parameters_schema"
  by (simp_all add: tool_definition_def)

lemma own_prop_parameters_schema:
  "own_prop parameters_schema ''type'' = Some (JStr ''object'')"
  "own_prop parameters_schema ''required'' = Some (JArr [JStr ''name'', JStr ''args''])"
  "own_prop parameters_schema ''additionalProperties'' = Some (JBool False)"
  "own_prop parameters_schema ''properties'' =
     Some (JObj [(''name'', JObj [(''type'', JStr ''string''), (''description'', JStr ''Tool name'')]),
                 (''args'', JObj [(''type'', JStr ''object''), (''description'', JStr ''Tool args'')])])"
  by (simp_all add: parameters_schema_def)

lemma getMcpToolDefinitions_Some:
  "getMcpToolDefinitions (Some servers) = map tool_definition (map fst servers)"
  by (simp add: getMcpToolDefinitions_def case_prod_beta)

text \<open>
  Claim C6. \<^verbatim>\<open>getMcpToolDefinitions\<close> of an absent registry is the empty sequence. Of a
  registry it is one descriptor per entry, in the order of the entries: the names of the
  descriptors are the keys, verbatim and in order. Every descriptor has
  \<^verbatim>\<open>type = "function"\<close> and \<^verbatim>\<open>strict = false\<close>, and its \<^verbatim>\<open>parameters\<close> are an object schema
  with the two properties \<^verbatim>\<open>name\<close>, of type string, and \<^verbatim>\<open>args\<close>, of type object, both
  required, and \<^verbatim>\<open>additionalProperties = false\<close>.
\<close>

theorem descriptors_of_registry:
  "getMcpToolDefinitions None = [] \<and>
   map (\<lambda>d. own_prop d ''name'') (getMcpToolDefinitions (Some servers))
     = map (\<lambda>(serverName, cfg). Some (JStr serverName)) servers \<and>
   (\<forall>d \<in> set (getMcpToolDefinitions (Some servers)).
      own_prop d ''type'' = Some (JStr ''function'') \<and>
      own_prop d ''strict'' = Some (JBool False) \<and>
      (\<exists>schema props.
         own_prop d ''parameters'' = Some schema \<and>
         own_prop schema ''type'' = Some (JStr ''object'') \<and>
         own_prop schema ''required'' = Some (JArr [JStr ''name'', JStr ''args'']) \<and>
         own_prop schema ''additionalProperties'' = Some (JBool False) \<and>
         own_prop schema ''properties'' = Some (JObj props) \<and>
         map fst props = [''name'', ''args''] \<and>
         (\<exists>n. map_of props ''name'' = Some n \<and> own_prop n ''type'' = Some (JStr ''string'')) \<and>
         (\<exists>a. map_of props ''args'' = Some a \<and> own_prop a ''type'' = Some (JStr ''object''))))"
proof (intro conjI ballI)
  show "getMcpToolDefinitions None = []"
    by (simp add: getMcpToolDefinitions_def)
  show "map (\<lambda>d. own_prop d ''name'') (getMcpToolDefinitions (Some servers))
     = map (\<lambda>(serverName, cfg). Some (JStr serverName)) servers"
    by (simp add: getMcpToolDefinitions_Some own_prop_tool_definition case_prod_beta comp_def)
next
  fix d assume "d \<in> set (getMcpToolDefinitions (Some servers))"
  then obtain k where d: "d = tool_definition k"
    by (auto simp: getMcpToolDefinitions_Some)
  show "own_prop d ''type'' = Some (JStr ''function'')"
    by (simp add: d own_prop_tool_definition)
  show "own_prop d ''strict'' = Some (JBool False)"
    by (simp add: d own_prop_tool_definition)
  show "\<exists>schema props.
         own_prop d ''parameters'' = Some schema \<and>
         own_prop schema ''type'' = Some (JStr ''object'') \<and>
         own_prop schema ''required'' = Some (JArr [JStr ''name'', JStr ''args'']) \<and>
         own_prop schema ''additionalProperties'' = Some (JBool False) \<and>
         own_prop schema ''properties'' = Some (JObj props) \<and>
         map fst props = [''name'', ''args''] \<and>
         (\<exists>n. map_of props ''name'' = Some n \<and> own_prop n ''type'' = Some (JStr ''string'')) \<and>
         (\<exists>a. map_of props ''args'' = Some a \<and> own_prop a ''type'' = Some (JStr ''object''))"
    unfolding d own_prop_tool_definition
    by (intro exI conjI, rule refl, (simp add: own_prop_parameters_schema)+)
qed

text \<open>The registry \<^verbatim>\<open>{files: ..., down: ...}\<close> gives the descriptors \<^verbatim>\<open>files\<close> and \<^verbatim>\<open>down\<close>.\<close>

theorem descriptors_of_registry_witness:
  "getMcpToolDefinitions None = [] \<and>
   map (\<lambda>d. own_prop d ''name'') (getMcpToolDefinitions (Some demo_servers))
     = [Some (JStr ''files''), Some (JStr ''down'')] \<and>
   getMcpToolDefinitions (Some demo_servers) \<noteq> [] \<and>
   own_prop (hd (getMcpToolDefinitions (Some demo_servers))) ''type'' = Some (JStr ''function'') \<and>
   own_prop (hd (getMcpToolDefinitions (Some demo_servers))) ''strict'' = Some (JBool False)"
proof -
  have first: "hd (getMcpToolDefinitions (Some demo_servers))
                 \<in> set (getMcpToolDefinitions (Some demo_servers))"
    by (simp add: getMcpToolDefinitions_def demo_servers_def)
  from descriptors_of_registry [of demo_servers] first show ?thesis
    by (auto simp: demo_servers_def)
qed

text \<open>
  Claim C10. The descriptors depend on the keys of the registry and their order only:
  two registries with the same keys in the same order, whatever their \<^verbatim>\<open>url\<close> values,
  have the same descriptors.
\<close>

theorem descriptors_ignore_urls:
  "map fst servers = map fst servers' \<Longrightarrow>
     getMcpToolDefinitions (Some servers) = getMcpToolDefinitions (Some servers')"
  by (simp add: getMcpToolDefinitions_Some)

theorem descriptors_ignore_urls_witness:
  "map fst demo_servers
     = map fst [(''files'', \<lparr>url = ''https://other.example/''\<rparr>), (''down'', \<lparr>url = []\<rparr>)] \<and>
   getMcpToolDefinitions (Some demo_servers)
     = getMcpToolDefinitions
         (Some [(''files'', \<lparr>url = ''https://other.example/''\<rparr>), (''down'', \<lparr>url = []\<rparr>)])"
proof -
  have same_keys: "map fst demo_servers
      = map fst [(''files'', \<lparr>url = ''https://other.example/''\<rparr>), (''down'', \<lparr>url = []\<rparr>)]"
    by (simp add: demo_servers_def)
  from same_keys descriptors_ignore_urls [OF same_keys] show ?thesis by simp
qed

section \<open>The call router\<close>

subsection \<open>Evaluating the test double\<close>

text \<open>
  The simplifier does not evaluate the floor of a quotient of rational numerals by itself.
\<close>

lemma floor_rat_numeral: "\<lfloor>numeral a / numeral b :: rat\<rfloor> = numeral a div numeral b"
  by (metis floor_divide_of_int_eq of_int_numeral)

lemma floor_rat_one_numeral: "\<lfloor>1 / numeral b :: rat\<rfloor> = 1 div numeral b"
  by (metis floor_divide_of_int_eq of_int_1 of_int_numeral)

lemmas demo_simps = floor_rat_one_numeral demo_def demo_servers_def demo_parse_def demo_callTool_def
  demo_connect_def demo_fault_message_def initial_def files_client_def down_client_def
  prototype_servers_def quote_def show_number_def floor_rat_numeral

lemmas model_simps = handleMcpFunctionCall_def ensure_client_def invoke_def call_entry_def
  lookup_def Object_prototype_names_def formatRaw_def formatOutput_def
  envelope_def outputText_def read_prop_def Array_join_def callArgs_def other_def Let_def
  getDuration_def Math_round_def paramsRaw_def

subsection \<open>Reading a plain object\<close>

lemma lookup_own: "map_of obj key = Some v \<Longrightarrow> lookup obj key = Own v"
  by (simp add: lookup_def)

lemma lookup_Own_iff: "lookup obj key = Own v \<longleftrightarrow> map_of obj key = Some v"
  by (simp add: lookup_def split: option.splits)

lemma lookup_Undefined_iff:
  "lookup obj key = Undefined \<longleftrightarrow> map_of obj key = None \<and> key \<notin> set Object_prototype_names"
  by (simp add: lookup_def split: option.splits)

lemma lookup_Inherited_iff:
  "lookup obj key = Inherited \<longleftrightarrow> map_of obj key = None \<and> key \<in> set Object_prototype_names"
  by (simp add: lookup_def split: option.splits)

subsection \<open>The paths through the function\<close>

text \<open>
  Lines 58 to 60: \<^verbatim>\<open>servers[serverName]\<close> finds nothing.
\<close>

lemma handle_unknown_server:
  "lookup servers serverName = Undefined \<Longrightarrow>
     handleMcpFunctionCall rt servers serverName rawArguments callId st
       = (Inr (formatRaw callId (paramsRaw rawArguments)), st)"
  by (simp add: handleMcpFunctionCall_def)

text \<open>
  Lines 62 to 67: arguments that do not parse.
\<close>

lemma handle_unparseable:
  "JSON_parse rt (paramsRaw rawArguments) = None \<Longrightarrow>
     handleMcpFunctionCall rt servers serverName rawArguments callId st
       = (Inr (formatRaw callId (paramsRaw rawArguments)), st)"
  by (simp add: handleMcpFunctionCall_def split: property.splits)


text \<open>
  Line 70: a parsed value other than \<open>null\<close> whose \<^verbatim>\<open>name\<close> is not a string.
\<close>

lemma handle_no_name:
  "JSON_parse rt (paramsRaw rawArguments) = Some parsed \<Longrightarrow> parsed \<noteq> JNull \<Longrightarrow>
   \<nexists>toolName. own_prop parsed ''name'' = Some (JStr toolName) \<Longrightarrow>
     handleMcpFunctionCall rt servers serverName rawArguments callId st
       = (Inr (formatRaw callId (paramsRaw rawArguments)), st)"
  by (cases parsed)
     (auto simp add: handleMcpFunctionCall_def split: option.splits json.splits property.splits)

text \<open>
  Lines 72 to 99: the call is routed.
\<close>

lemma handle_routed:
  "lookup servers serverName = entry \<Longrightarrow> entry \<noteq> Undefined \<Longrightarrow>
   JSON_parse rt (paramsRaw rawArguments) = Some (JObj kvs) \<Longrightarrow>
   map_of kvs ''name'' = Some (JStr toolName) \<Longrightarrow>
     handleMcpFunctionCall rt servers serverName rawArguments callId st
       = (case ensure_client rt entry serverName st of
            (Inl e, st') \<Rightarrow> (Inl e, st')
          | (Inr cached, st') \<Rightarrow> invoke rt callId cached toolName (callArgs kvs) st')"
  by (cases entry) (simp_all add: handleMcpFunctionCall_def)

lemma handle_known:
  "map_of servers serverName = Some cfg \<Longrightarrow>
   JSON_parse rt (paramsRaw rawArguments) = Some (JObj kvs) \<Longrightarrow>
   map_of kvs ''name'' = Some (JStr toolName) \<Longrightarrow>
     handleMcpFunctionCall rt servers serverName rawArguments callId st
       = (case ensure_client rt (Own cfg) serverName st of
            (Inl e, st') \<Rightarrow> (Inl e, st')
          | (Inr cached, st') \<Rightarrow> invoke rt callId cached toolName (callArgs kvs) st')"
  by (simp add: handle_routed [OF lookup_own])

lemma call_entry_client:
  "callTool rt client toolName args (world st) = (result, w) \<Longrightarrow>
     call_entry rt (Own client) toolName args st
       = (result, st\<lparr>world := w, calls := calls st @ [CallTool client toolName args]\<rparr>)"
  by (simp add: call_entry_def)

lemma call_entry_no_client:
  "\<forall>client. cached \<noteq> Own client \<Longrightarrow>
     \<exists>m. call_entry rt cached toolName args st = (Inl (TypeError m), st)"
  by (cases cached) (simp_all add: call_entry_def)


lemma invoke_answered:
  "call_entry rt cached toolName args st = (Inr response, st') \<Longrightarrow>
   outputText rt response = Inr text \<Longrightarrow>
     invoke rt callId cached toolName args st
       = (Inr [formatOutput rt callId text 0
                 (getDuration (Date_now rt (world st)) (Date_now rt (world st')))], st')"
  by (simp add: invoke_def)

lemma invoke_unreadable:
  "call_entry rt cached toolName args st = (Inr response, st') \<Longrightarrow>
   outputText rt response = Inl e \<Longrightarrow> error_text e = Inr msg \<Longrightarrow>
     invoke rt callId cached toolName args st
       = (Inr [formatOutput rt callId (''MCP error: '' @ msg) 1
                 (getDuration (Date_now rt (world st)) (Date_now rt (world st')))], st')"
  by (simp add: invoke_def)

lemma invoke_rejected:
  "call_entry rt cached toolName args st = (Inl e, st') \<Longrightarrow> error_text e = Inr msg \<Longrightarrow>
     invoke rt callId cached toolName args st
       = (Inr [formatOutput rt callId (''MCP error: '' @ msg) 1
                 (getDuration (Date_now rt (world st)) (Date_now rt (world st')))], st')"
  by (simp add: invoke_def)

lemma invoke_unprintable:
  "call_entry rt cached toolName args st = (Inl e, st') \<Longrightarrow> error_text e = Inl t \<Longrightarrow>
     invoke rt callId cached toolName args st = (Inl t, st')"
  by (simp add: invoke_def)

lemma invoke_state:
  "snd (invoke rt callId cached toolName args st) = snd (call_entry rt cached toolName args st)"
  by (simp add: invoke_def Let_def split: prod.splits sum.splits)


lemma invoke_records:
  "invoke rt callId cached toolName args st = (Inr records, st') \<Longrightarrow>
     \<exists>out. records = [\<lparr>type = ''function_call_output'', call_id = callId, output = out\<rparr>]"
  by (auto simp add: invoke_def Let_def formatOutput_def split: prod.splits sum.splits)


text \<open>
  The calls of the test double that the examples below use.
\<close>

lemma demo_known_files:
  "map_of demo_servers ''files'' = Some \<lparr>url = ''http://files.example/sse''\<rparr>"
  by (simp add: demo_servers_def)

lemma demo_known_down:
  "map_of demo_servers ''down'' = Some \<lparr>url = ''http://down.example/sse''\<rparr>"
  by (simp add: demo_servers_def)

lemma demo_parsed_echo:
  \<open>JSON_parse demo (paramsRaw (Some ''{"name":"echo","args":{"x":1}}''))
     = Some (JObj [(''name'', JStr ''echo''), (''args'', JObj [(''x'', JNum 1)])])\<close>
  by (simp add: demo_def demo_parse_def paramsRaw_def)


lemma demo_parsed_boom:
  \<open>JSON_parse demo (paramsRaw (Some ''{"name":"boom","args":{}}''))
     = Some (JObj [(''name'', JStr ''boom''), (''args'', JObj [])])\<close>
  by (simp add: demo_def demo_parse_def paramsRaw_def)

lemma demo_parsed_busy:
  \<open>JSON_parse demo (paramsRaw (Some ''{"name":"busy","args":{}}''))
     = Some (JObj [(''name'', JStr ''busy''), (''args'', JObj [])])\<close>
  by (simp add: demo_def demo_parse_def paramsRaw_def)

lemma demo_parsed_opaque:
  \<open>JSON_parse demo (paramsRaw (Some ''{"name":"opaque","args":{}}''))
     = Some (JObj [(''name'', JStr ''opaque''), (''args'', JObj [])])\<close>
  by (simp add: demo_def demo_parse_def paramsRaw_def)

lemma demo_parsed_flat:
  \<open>JSON_parse demo (paramsRaw (Some ''{"name":"t","foo":"bar"}''))
     = Some (JObj [(''name'', JStr ''t''), (''foo'', JStr ''bar'')])\<close>
  by (simp add: demo_def demo_parse_def paramsRaw_def)

lemma demo_connect_files:
  "ensure_client demo (Own \<lparr>url = ''http://files.example/sse''\<rparr>) ''files'' (initial 1000)
     = (Inr (Own files_client),
        \<lparr>mcpClients = [(''files'', files_client)], world = 1040, calls = [Connect files_client]\<rparr>)"
  by (simp add: demo_simps ensure_client_def lookup_def Object_prototype_names_def Let_def)

lemma demo_echo_call:
  \<open>handleMcpFunctionCall demo demo_servers ''files'' (Some ''{"name":"echo","args":{"x":1}}'')
       ''call_1'' (initial 1000)
     = (Inr [\<lparr>type = ''function_call_output'', call_id = ''call_1'',
              output = ''{"output":"hi","metadata":{"exit_code":0,"duration_seconds":0.3}}''\<rparr>],
        \<lparr>mcpClients = [(''files'', files_client)], world = 1290,
          calls = [Connect files_client, CallTool files_client ''echo'' (JObj [(''x'', JNum 1)])]\<rparr>)\<close>
  by (simp add: demo_simps model_simps)


subsection \<open>Unroutable calls\<close>

text \<open>
  Claim C1 says that every unroutable call (unknown server, arguments that do not parse,
  a parsed payload without a string \<^verbatim>\<open>name\<close>) returns the raw arguments in one record and
  never throws. The lemmas \<open>handle_unknown_server\<close>, \<open>handle_unparseable\<close> and
  \<open>handle_no_name\<close> show what the guards of lines 58 to 70 cover. They miss the arguments
  \<^verbatim>\<open>"null"\<close>: these parse, the payload \<open>null\<close> has no \<^verbatim>\<open>name\<close>, and line 69 throws a
  \<open>TypeError\<close> that nothing catches. The call below, to the known server \<^verbatim>\<open>files\<close>, is
  rejected and returns no record.
\<close>

theorem null_payload_rejected:
  \<open>paramsRaw (Some ''null'') = ''null'' \<and>
   map_of demo_servers ''files'' = Some \<lparr>url = ''http://files.example/sse''\<rparr> \<and>
   JSON_parse demo ''null'' = Some JNull \<and>
   own_prop JNull ''name'' = None \<and>
   handleMcpFunctionCall demo demo_servers ''files'' (Some ''null'') ''call_1'' (initial 1000)
     = (Inl (TypeError ''Cannot destructure null''), initial 1000)\<close>
  by (simp add: demo_simps model_simps)

text \<open>
  The guard of line 58 misses a second case: a name that is no key of the registry but a
  member of \<^verbatim>\<open>Object.prototype\<close> passes it, and a payload with a \<^verbatim>\<open>name\<close> is then answered
  with an error record where the raw arguments were due.
\<close>

lemma unknown_prototype_name_not_passed_raw:
  \<open>map_of demo_servers ''toString'' = None \<and>
   handleMcpFunctionCall demo demo_servers ''toString'' (Some ''{"name":"t","foo":"bar"}'') ''call_7''
       (initial 1000)
     = (Inr [formatOutput demo ''call_7''
               (''MCP error: mcpClients[serverName].callTool is not a function'') 1 0],
        initial 1000)\<close>
  by (simp add: demo_simps model_simps)

subsection \<open>One record per call\<close>

text \<open>
  Claim C4. Whatever the registry, the server name, the arguments (absent or not) and
  the call id: a call that returns, returns exactly one record, of type
  \<^verbatim>\<open>function_call_output\<close> and with the call id it was given. And the paths the claim names
  do return: a server name under which the registry has nothing, arguments that do not
  parse and a payload without a string \<^verbatim>\<open>name\<close> give the record of the raw arguments; a
  remote call that answers with a readable response, and one that fails with an error
  that has a text, give a record.
\<close>

theorem one_record_per_call:
  "(handleMcpFunctionCall rt servers serverName rawArguments callId st = (Inr records, st') \<longrightarrow>
      (\<exists>out. records = [\<lparr>type = ''function_call_output'', call_id = callId, output = out\<rparr>])) \<and>
   (lookup servers serverName = Undefined \<longrightarrow>
      fst (handleMcpFunctionCall rt servers serverName rawArguments callId st)
        = Inr [\<lparr>type = ''function_call_output'', call_id = callId,
                output = paramsRaw rawArguments\<rparr>]) \<and>
   (JSON_parse rt (paramsRaw rawArguments) = None \<longrightarrow>
      fst (handleMcpFunctionCall rt servers serverName rawArguments callId st)
        = Inr [\<lparr>type = ''function_call_output'', call_id = callId,
                output = paramsRaw rawArguments\<rparr>]) \<and>
   (JSON_parse rt (paramsRaw rawArguments) = Some parsed \<and> parsed \<noteq> JNull \<and>
    (\<nexists>s. own_prop parsed ''name'' = Some (JStr s)) \<longrightarrow>
      fst (handleMcpFunctionCall rt servers serverName rawArguments callId st)
        = Inr [\<lparr>type = ''function_call_output'', call_id = callId,
                output = paramsRaw rawArguments\<rparr>]) \<and>
   (map_of servers serverName = Some cfg \<and>
    JSON_parse rt (paramsRaw rawArguments) = Some (JObj kvs) \<and>
    map_of kvs ''name'' = Some (JStr toolName) \<and>
    ensure_client rt (Own cfg) serverName st = (Inr (Own client), st1) \<and>
    callTool rt client toolName (callArgs kvs) (world st1) = (Inr response, w) \<and>
    outputText rt response = Inr text \<longrightarrow>
      (\<exists>out. fst (handleMcpFunctionCall rt servers serverName rawArguments callId st)
         = Inr [\<lparr>type = ''function_call_output'', call_id = callId, output = out\<rparr>])) \<and>
   (map_of servers serverName = Some cfg \<and>
    JSON_parse rt (paramsRaw rawArguments) = Some (JObj kvs) \<and>
    map_of kvs ''name'' = Some (JStr toolName) \<and>
    ensure_client rt (Own cfg) serverName st = (Inr (Own client), st1) \<and>
    callTool rt client toolName (callArgs kvs) (world st1) = (Inl e, w) \<and>
    error_text e = Inr msg \<longrightarrow>
      (\<exists>out. fst (handleMcpFunctionCall rt servers serverName rawArguments callId st)
         = Inr [\<lparr>type = ''function_call_output'', call_id = callId, output = out\<rparr>]))"
proof (intro conjI impI)
  assume ret: "handleMcpFunctionCall rt servers serverName rawArguments callId st = (Inr records, st')"
  show "\<exists>out. records = [\<lparr>type = ''function_call_output'', call_id = callId, output = out\<rparr>]"
  proof (cases "\<exists>cached st1 toolName args. invoke rt callId cached toolName args st1 = (Inr records, st')")
    case True
    then show ?thesis by (auto dest: invoke_records)
  next
    case False
    with ret have "records = formatRaw callId (paramsRaw rawArguments)"
      unfolding handleMcpFunctionCall_def
      by (auto split: property.splits option.splits json.splits sum.splits prod.splits)
    then show ?thesis by (simp add: formatRaw_def)
  qed
next
  assume "lookup servers serverName = Undefined"
  then show "fst (handleMcpFunctionCall rt servers serverName rawArguments callId st)
        = Inr [\<lparr>type = ''function_call_output'', call_id = callId,
                output = paramsRaw rawArguments\<rparr>]"
    by (simp add: handle_unknown_server formatRaw_def)
next
  assume "JSON_parse rt (paramsRaw rawArguments) = None"
  then show "fst (handleMcpFunctionCall rt servers serverName rawArguments callId st)
        = Inr [\<lparr>type = ''function_call_output'', call_id = callId,
                output = paramsRaw rawArguments\<rparr>]"
    by (simp add: handle_unparseable formatRaw_def)
next
  assume "JSON_parse rt (paramsRaw rawArguments) = Some parsed \<and> parsed \<noteq> JNull \<and>
    (\<nexists>s. own_prop parsed ''name'' = Some (JStr s))"
  then have "handleMcpFunctionCall rt servers serverName rawArguments callId st
      = (Inr (formatRaw callId (paramsRaw rawArguments)), st)"
    by (intro handle_no_name [of rt rawArguments parsed]) blast+
  then show "fst (handleMcpFunctionCall rt servers serverName rawArguments callId st)
        = Inr [\<lparr>type = ''function_call_output'', call_id = callId,
                output = paramsRaw rawArguments\<rparr>]"
    by (simp add: formatRaw_def)
next
  assume h: "map_of servers serverName = Some cfg \<and>
    JSON_parse rt (paramsRaw rawArguments) = Some (JObj kvs) \<and>
    map_of kvs ''name'' = Some (JStr toolName) \<and>
    ensure_client rt (Own cfg) serverName st = (Inr (Own client), st1) \<and>
    callTool rt client toolName (callArgs kvs) (world st1) = (Inr response, w) \<and>
    outputText rt response = Inr text"
  then have "call_entry rt (Own client) toolName (callArgs kvs) st1
      = (Inr response, st1\<lparr>world := w, calls := calls st1 @ [CallTool client toolName (callArgs kvs)]\<rparr>)"
    by (simp add: call_entry_client)
  from invoke_answered [OF this, of "text" callId] h
  show "\<exists>out. fst (handleMcpFunctionCall rt servers serverName rawArguments callId st)
         = Inr [\<lparr>type = ''function_call_output'', call_id = callId, output = out\<rparr>]"
    by (simp add: handle_known formatOutput_def)
next
  assume h: "map_of servers serverName = Some cfg \<and>
    JSON_parse rt (paramsRaw rawArguments) = Some (JObj kvs) \<and>
    map_of kvs ''name'' = Some (JStr toolName) \<and>
    ensure_client rt (Own cfg) serverName st = (Inr (Own client), st1) \<and>
    callTool rt client toolName (callArgs kvs) (world st1) = (Inl e, w) \<and>
    error_text e = Inr msg"
  then have "call_entry rt (Own client) toolName (callArgs kvs) st1
      = (Inl e, st1\<lparr>world := w, calls := calls st1 @ [CallTool client toolName (callArgs kvs)]\<rparr>)"
    by (simp add: call_entry_client)
  from invoke_rejected [OF this, of msg callId] h
  show "\<exists>out. fst (handleMcpFunctionCall rt servers serverName rawArguments callId st)
         = Inr [\<lparr>type = ''function_call_output'', call_id = callId, output = out\<rparr>]"
    by (simp add: handle_known formatOutput_def)
qed

text \<open>
  An unknown server, arguments that are no JSON, absent arguments, the tool \<^verbatim>\<open>echo\<close> and
  the failing tool \<^verbatim>\<open>boom\<close>: one record each.
\<close>

theorem one_record_per_call_witness:
  \<open>lookup demo_servers ''nowhere'' = Undefined \<and>
   fst (handleMcpFunctionCall demo demo_servers ''nowhere'' None ''call_8'' (initial 1000))
     = Inr [\<lparr>type = ''function_call_output'', call_id = ''call_8'', output = ''{}''\<rparr>] \<and>
   JSON_parse demo (paramsRaw (Some ''not json'')) = None \<and>
   fst (handleMcpFunctionCall demo demo_servers ''files'' (Some ''not json'') ''call_9'' (initial 1000))
     = Inr [\<lparr>type = ''function_call_output'', call_id = ''call_9'', output = ''not json''\<rparr>] \<and>
   JSON_parse demo (paramsRaw None) = Some (JObj []) \<and>
   fst (handleMcpFunctionCall demo demo_servers ''files'' None ''call_10'' (initial 1000))
     = Inr [\<lparr>type = ''function_call_output'', call_id = ''call_10'', output = ''{}''\<rparr>] \<and>
   handleMcpFunctionCall demo demo_servers ''files'' (Some ''{"name":"echo","args":{"x":1}}'')
       ''call_1'' (initial 1000)
     = (Inr [\<lparr>type = ''function_call_output'', call_id = ''call_1'',
              output = ''{"output":"hi","metadata":{"exit_code":0,"duration_seconds":0.3}}''\<rparr>],
        \<lparr>mcpClients = [(''files'', files_client)], world = 1290,
          calls = [Connect files_client, CallTool files_client ''echo'' (JObj [(''x'', JNum 1)])]\<rparr>) \<and>
   (\<exists>out. [\<lparr>type = ''function_call_output'', call_id = ''call_1'',
              output = ''{"output":"hi","metadata":{"exit_code":0,"duration_seconds":0.3}}''\<rparr>]
           = [\<lparr>type = ''function_call_output'', call_id = ''call_1'', output = out\<rparr>]) \<and>
   outputText demo (JObj [(''content'', JArr [JObj [(''text'', JStr ''hi'')]])]) = Inr ''hi'' \<and>
   (\<exists>out. fst (handleMcpFunctionCall demo demo_servers ''files''
                 (Some ''{"name":"echo","args":{"x":1}}'') ''call_1'' (initial 1000))
         = Inr [\<lparr>type = ''function_call_output'', call_id = ''call_1'', output = out\<rparr>]) \<and>
   callTool demo files_client ''boom'' (JObj []) 1040 = (Inl (Error ''boom''), 1160) \<and>
   (\<exists>out. fst (handleMcpFunctionCall demo demo_servers ''files''
                 (Some ''{"name":"boom","args":{}}'') ''call_2'' (initial 1000))
         = Inr [\<lparr>type = ''function_call_output'', call_id = ''call_2'', output = out\<rparr>])\<close>
proof -
  let ?S0 = "\<lparr>mcpClients = [(''files'', files_client)], world = 1040, calls = [Connect files_client]\<rparr>"
  have unknown: "lookup demo_servers ''nowhere'' = Undefined"
    by (simp add: lookup_def demo_servers_def Object_prototype_names_def)
  have unparsed: "JSON_parse demo (paramsRaw (Some ''not json'')) = None"
    by (simp add: demo_def demo_parse_def paramsRaw_def)
  have answered: "callTool demo files_client ''echo''
      (callArgs [(''name'', JStr ''echo''), (''args'', JObj [(''x'', JNum 1)])]) (world ?S0)
      = (Inr (JObj [(''content'', JArr [JObj [(''text'', JStr ''hi'')]])]), 1290)"
    by (simp add: demo_def demo_callTool_def callArgs_def)
  have readable: "outputText demo (JObj [(''content'', JArr [JObj [(''text'', JStr ''hi'')]])]) = Inr ''hi''"
    by (simp add: outputText_def read_prop_def Array_join_def)
  have rejected: "callTool demo files_client ''boom''
      (callArgs [(''name'', JStr ''boom''), (''args'', JObj [])]) (world ?S0)
      = (Inl (Error ''boom''), 1160)"
    by (simp add: demo_def demo_callTool_def callArgs_def)
  have named: "map_of [(''name'', JStr ''echo''), (''args'', JObj [(''x'', JNum 1)])] ''name''
      = Some (JStr ''echo'')"
    by simp
  have named': "map_of [(''name'', JStr ''boom''), (''args'', JObj [])] ''name'' = Some (JStr ''boom'')"
    by simp
  note paths = one_record_per_call
  from paths [of demo demo_servers "''nowhere''" None "''call_8''" "initial 1000", THEN conjunct2,
      THEN conjunct1, THEN mp, OF unknown]
  have raw1: "fst (handleMcpFunctionCall demo demo_servers ''nowhere'' None ''call_8'' (initial 1000))
     = Inr [\<lparr>type = ''function_call_output'', call_id = ''call_8'', output = ''{}''\<rparr>]"
    by (simp add: paramsRaw_def)
  from paths [of demo demo_servers "''files''" "Some ''not json''" "''call_9''" "initial 1000",
      THEN conjunct2, THEN conjunct2, THEN conjunct1, THEN mp, OF unparsed]
  have raw2: "fst (handleMcpFunctionCall demo demo_servers ''files'' (Some ''not json'') ''call_9''
       (initial 1000))
     = Inr [\<lparr>type = ''function_call_output'', call_id = ''call_9'', output = ''not json''\<rparr>]"
    by (simp add: paramsRaw_def)
  have nameless: "JSON_parse demo (paramsRaw None) = Some (JObj [])"
    by (simp add: demo_def demo_parse_def paramsRaw_def)
  have no_name: "JSON_parse demo (paramsRaw None) = Some (JObj []) \<and> JObj [] \<noteq> JNull \<and>
      (\<nexists>s. own_prop (JObj []) ''name'' = Some (JStr s))"
    by (simp add: nameless)
  from paths [of demo demo_servers "''files''" None "''call_10''" "initial 1000",
      THEN conjunct2, THEN conjunct2, THEN conjunct2, THEN conjunct1, THEN mp, OF no_name]
  have raw3: "fst (handleMcpFunctionCall demo demo_servers ''files'' None ''call_10'' (initial 1000))
     = Inr [\<lparr>type = ''function_call_output'', call_id = ''call_10'', output = ''{}''\<rparr>]"
    by (simp add: paramsRaw_def)
  from paths [THEN conjunct1, THEN mp, OF demo_echo_call]
  have one: "\<exists>out. [\<lparr>type = ''function_call_output'', call_id = ''call_1'',
              output = ''{\"output\":\"hi\",\"metadata\":{\"exit_code\":0,\"duration_seconds\":0.3}}''\<rparr>]
           = [\<lparr>type = ''function_call_output'', call_id = ''call_1'', output = out\<rparr>]" .
  from paths [THEN conjunct2, THEN conjunct2, THEN conjunct2, THEN conjunct2, THEN conjunct1, THEN mp,
      OF conjI [OF demo_known_files conjI [OF demo_parsed_echo conjI [OF named
         conjI [OF demo_connect_files conjI [OF answered readable]]]]], of "''call_1''"]
  have success: "\<exists>out. fst (handleMcpFunctionCall demo demo_servers ''files''
                 (Some ''{\"name\":\"echo\",\"args\":{\"x\":1}}'') ''call_1'' (initial 1000))
         = Inr [\<lparr>type = ''function_call_output'', call_id = ''call_1'', output = out\<rparr>]" .
  have convertible: "error_text (Error ''boom'') = Inr ''boom''"
    by simp
  from paths [THEN conjunct2, THEN conjunct2, THEN conjunct2, THEN conjunct2, THEN conjunct2, THEN mp,
      OF conjI [OF demo_known_files conjI [OF demo_parsed_boom conjI [OF named'
         conjI [OF demo_connect_files conjI [OF rejected convertible]]]]], of "''call_2''"]
  have failure: "\<exists>out. fst (handleMcpFunctionCall demo demo_servers ''files''
                 (Some ''{\"name\":\"boom\",\"args\":{}}'') ''call_2'' (initial 1000))
         = Inr [\<lparr>type = ''function_call_output'', call_id = ''call_2'', output = out\<rparr>]" .
  from answered have answered': "callTool demo files_client ''echo'' (JObj [(''x'', JNum 1)]) 1040
      = (Inr (JObj [(''content'', JArr [JObj [(''text'', JStr ''hi'')]])]), 1290)"
    by (simp add: callArgs_def)
  from rejected have rejected': "callTool demo files_client ''boom'' (JObj []) 1040
      = (Inl (Error ''boom''), 1160)"
    by (simp add: callArgs_def)
  show ?thesis
    by (intro conjI unknown raw1 unparsed raw2 nameless raw3 demo_echo_call one readable success
          rejected' failure)
qed

subsection \<open>The duration\<close>

lemma Math_round_hundredths: "Math_round (of_int n / 100) = (n + 50) div 100"
proof -
  have "(of_int n :: rat) / 100 + 1 / 2 = of_int (n + 50) / of_int 100" by simp
  then show ?thesis
    unfolding Math_round_def by (simp only: floor_divide_of_int_eq)
qed

lemma Math_round_nearest: "\<bar>of_int (Math_round x) - x\<bar> \<le> 1 / 2"
proof -
  have "of_int \<lfloor>x + 1 / 2\<rfloor> \<le> x + 1 / 2" by (rule of_int_floor_le)
  moreover have "x + 1 / 2 < of_int \<lfloor>x + 1 / 2\<rfloor> + 1" by linarith
  ultimately show ?thesis unfolding Math_round_def by linarith
qed

lemma getDuration_error: "\<bar>getDuration start now - of_int (now - start) / 1000\<bar> \<le> 1 / 20"
proof -
  define x :: rat where "x = of_int (now - start) / 100"
  from Math_round_nearest [of x]
  have "\<bar>of_int (Math_round x) / 10 - x / 10\<bar> \<le> 1 / 20" by linarith
  then show ?thesis by (simp add: getDuration_def x_def)
qed

subsection \<open>A remote call that fails\<close>

lemma remote_failure:
  assumes known: "map_of servers serverName = Some cfg"
    and parsed: "JSON_parse rt (paramsRaw rawArguments) = Some (JObj kvs)"
    and named: "map_of kvs ''name'' = Some (JStr toolName)"
    and connected: "ensure_client rt (Own cfg) serverName st = (Inr (Own client), st1)"
    and rejected: "callTool rt client toolName (callArgs kvs) (world st1) = (Inl e, w)"
  shows "handleMcpFunctionCall rt servers serverName rawArguments callId st
           = (case error_text e of
                Inr msg \<Rightarrow>
                  Inr [formatOutput rt callId (''MCP error: '' @ msg) 1
                         (getDuration (Date_now rt (world st1)) (Date_now rt w))]
              | Inl t \<Rightarrow> Inl t,
              st1\<lparr>world := w, calls := calls st1 @ [CallTool client toolName (callArgs kvs)]\<rparr>)"
proof -
  from rejected have c: "call_entry rt (Own client) toolName (callArgs kvs) st1
      = (Inl e, st1\<lparr>world := w, calls := calls st1 @ [CallTool client toolName (callArgs kvs)]\<rparr>)"
    by (simp add: call_entry_client)
  show ?thesis
  proof (cases "error_text e")
    case (Inl t)
    with invoke_unprintable [OF c Inl, of callId] known parsed named connected show ?thesis
      by (simp add: handle_known)
  next
    case (Inr msg)
    with invoke_rejected [OF c Inr, of callId] known parsed named connected show ?thesis
      by (simp add: handle_known)
  qed
qed

text \<open>
  Claim C2, amended. The server is in the registry, the arguments parse to an object with
  a string \<^verbatim>\<open>name\<close>, and a client is there (cached, or connected by this call). When
  \<^verbatim>\<open>callTool\<close> throws or rejects with \<open>e\<close>, and \<open>e\<close> is an \<open>Error\<close> with the message \<open>m\<close> or
  another value that \<^verbatim>\<open>String\<close> converts to \<open>m\<close>, the function is fulfilled with one record
  whose output is the serialisation of \<^verbatim>\<open>{output, metadata: {exit_code, duration_seconds}}\<close>,
  where \<^verbatim>\<open>exit_code\<close> is 1 and \<^verbatim>\<open>output\<close> is \<^verbatim>\<open>"MCP error: "\<close> followed by \<open>m\<close>.
\<close>

theorem remote_failure_reported:
  assumes known: "map_of servers serverName = Some cfg"
    and parsed: "JSON_parse rt (paramsRaw rawArguments) = Some (JObj kvs)"
    and named: "map_of kvs ''name'' = Some (JStr toolName)"
    and connected: "ensure_client rt (Own cfg) serverName st = (Inr (Own client), st1)"
    and rejected: "callTool rt client toolName (callArgs kvs) (world st1) = (Inl e, w)"
    and convertible: "e = TypeError m \<or> e = Error m \<or> e = NonError m"
  shows "fst (handleMcpFunctionCall rt servers serverName rawArguments callId st) =
           Inr [\<lparr>type = ''function_call_output'', call_id = callId,
                 output = JSON_stringify rt
                   (JObj [(''output'', JStr (''MCP error: '' @ m)),
                          (''metadata'',
                             JObj [(''exit_code'', JNum 1),
                                   (''duration_seconds'',
                                      JNum (getDuration (Date_now rt (world st1)) (Date_now rt w)))])])\<rparr>]"
proof -
  from convertible have "error_text e = Inr m" by auto
  with remote_failure [OF known parsed named connected rejected, of callId] show ?thesis
    by (simp add: formatOutput_def envelope_def)
qed

text \<open>
  The tool \<^verbatim>\<open>boom\<close> rejects with \<^verbatim>\<open>new Error("boom")\<close> after 120 ms, the tool \<^verbatim>\<open>busy\<close> with
  the string \<^verbatim>\<open>"busy"\<close> after 10 ms.
\<close>

theorem remote_failure_reported_witness:
  \<open>callTool demo files_client ''boom'' (JObj []) 1040 = (Inl (Error ''boom''), 1160) \<and>
   fst (handleMcpFunctionCall demo demo_servers ''files'' (Some ''{"name":"boom","args":{}}'')
          ''call_2'' (initial 1000))
     = Inr [\<lparr>type = ''function_call_output'', call_id = ''call_2'',
             output = ''{"output":"MCP error: boom","metadata":{"exit_code":1,"duration_seconds":0.1}}''\<rparr>] \<and>
   callTool demo files_client ''busy'' (JObj []) 1040 = (Inl (NonError ''busy''), 1050) \<and>
   fst (handleMcpFunctionCall demo demo_servers ''files'' (Some ''{"name":"busy","args":{}}'')
          ''call_3'' (initial 1000))
     = Inr [\<lparr>type = ''function_call_output'', call_id = ''call_3'',
             output = ''{"output":"MCP error: busy","metadata":{"exit_code":1,"duration_seconds":0}}''\<rparr>]\<close>
proof -
  let ?S0 = "\<lparr>mcpClients = [(''files'', files_client)], world = 1040, calls = [Connect files_client]\<rparr>"
  have rejected: "callTool demo files_client ''boom''
      (callArgs [(''name'', JStr ''boom''), (''args'', JObj [])]) (world ?S0)
      = (Inl (Error ''boom''), 1160)"
    by (simp add: demo_def demo_callTool_def callArgs_def)
  have rejected': "callTool demo files_client ''busy''
      (callArgs [(''name'', JStr ''busy''), (''args'', JObj [])]) (world ?S0)
      = (Inl (NonError ''busy''), 1050)"
    by (simp add: demo_def demo_callTool_def callArgs_def)
  have named: "map_of [(''name'', JStr ''boom''), (''args'', JObj [])] ''name'' = Some (JStr ''boom'')"
    by simp
  have named': "map_of [(''name'', JStr ''busy''), (''args'', JObj [])] ''name'' = Some (JStr ''busy'')"
    by simp
  from remote_failure_reported [OF demo_known_files demo_parsed_boom named demo_connect_files rejected,
      of "''boom''" "''call_2''"]
  have first: \<open>fst (handleMcpFunctionCall demo demo_servers ''files'' (Some ''{"name":"boom","args":{}}'')
          ''call_2'' (initial 1000))
     = Inr [\<lparr>type = ''function_call_output'', call_id = ''call_2'',
             output = ''{"output":"MCP error: boom","metadata":{"exit_code":1,"duration_seconds":0.1}}''\<rparr>]\<close>
    by (simp add: demo_simps getDuration_def Math_round_def)
  from remote_failure_reported [OF demo_known_files demo_parsed_busy named' demo_connect_files rejected',
      of "''busy''" "''call_3''"]
  have second: \<open>fst (handleMcpFunctionCall demo demo_servers ''files'' (Some ''{"name":"busy","args":{}}'')
          ''call_3'' (initial 1000))
     = Inr [\<lparr>type = ''function_call_output'', call_id = ''call_3'',
             output = ''{"output":"MCP error: busy","metadata":{"exit_code":1,"duration_seconds":0}}''\<rparr>]\<close>
    by (simp add: demo_simps getDuration_def Math_round_def)
  from rejected have called: "callTool demo files_client ''boom'' (JObj []) 1040 = (Inl (Error ''boom''), 1160)"
    by (simp add: callArgs_def)
  from rejected' have called': "callTool demo files_client ''busy'' (JObj []) 1040
      = (Inl (NonError ''busy''), 1050)"
    by (simp add: callArgs_def)
  show ?thesis
    by (intro conjI called first called' second)
qed

text \<open>
  Claim C2 as it is stated fails: the tool \<^verbatim>\<open>opaque\<close> rejects with a value that \<^verbatim>\<open>String\<close>
  cannot convert, line 97 throws inside the \<^verbatim>\<open>catch\<close> block, and the function is rejected
  with that \<open>TypeError\<close>: no record is returned.
\<close>

theorem unprintable_rejection_escapes:
  \<open>callTool demo files_client ''opaque'' (JObj []) 1040
     = (Inl (Unprintable (TypeError ''Cannot convert object to primitive value'')), 1050) \<and>
   handleMcpFunctionCall demo demo_servers ''files'' (Some ''{"name":"opaque","args":{}}'')
       ''call_4'' (initial 1000)
     = (Inl (TypeError ''Cannot convert object to primitive value''),
        \<lparr>mcpClients = [(''files'', files_client)], world = 1050,
          calls = [Connect files_client, CallTool files_client ''opaque'' (JObj [])]\<rparr>)\<close>
  by (simp add: demo_simps model_simps)

subsection \<open>A remote call that succeeds\<close>





lemma outputText_null_response:
  "outputText rt JNull = Inl (TypeError (fault_message rt (ReadOfNull ''content'')))"
  by (simp add: outputText_def read_prop_def)

lemma outputText_null_element:
  "own_prop response ''content'' = Some (JArr content) \<Longrightarrow> JNull \<in> set content \<Longrightarrow>
     outputText rt response = Inl (TypeError (fault_message rt (ReadOfNull ''text'')))"
proof -
  assume c: "own_prop response ''content'' = Some (JArr content)" and n: "JNull \<in> set content"
  from c have "response \<noteq> JNull" by auto
  then have rd: "read_prop rt response ''content'' = Inr (Some (JArr content))"
    using c by (cases response) (simp_all add: read_prop_def)
  from n have "map_throw (\<lambda>c. read_prop rt c ''text'') content
      = Inl (TypeError (fault_message rt (ReadOfNull ''text'')))"
    by (induction content) (auto simp: read_prop_def split: json.splits sum.splits)
  with rd show ?thesis by (simp add: outputText_def)
qed

lemma remote_answer:
  assumes known: "map_of servers serverName = Some cfg"
    and parsed: "JSON_parse rt (paramsRaw rawArguments) = Some (JObj kvs)"
    and named: "map_of kvs ''name'' = Some (JStr toolName)"
    and connected: "ensure_client rt (Own cfg) serverName st = (Inr (Own client), st1)"
    and answered: "callTool rt client toolName (callArgs kvs) (world st1) = (Inr response, w)"
    and readable: "outputText rt response = Inr shown"
  shows "handleMcpFunctionCall rt servers serverName rawArguments callId st
           = (Inr [formatOutput rt callId shown 0
                     (getDuration (Date_now rt (world st1)) (Date_now rt w))],
              st1\<lparr>world := w, calls := calls st1 @ [CallTool client toolName (callArgs kvs)]\<rparr>)"
proof -
  from answered have c: "call_entry rt (Own client) toolName (callArgs kvs) st1
      = (Inr response, st1\<lparr>world := w, calls := calls st1 @ [CallTool client toolName (callArgs kvs)]\<rparr>)"
    by (simp add: call_entry_client)
  from invoke_answered [OF c readable, of callId] known parsed named connected show ?thesis
    by (simp add: handle_known)
qed

lemma remote_unreadable:
  assumes known: "map_of servers serverName = Some cfg"
    and parsed: "JSON_parse rt (paramsRaw rawArguments) = Some (JObj kvs)"
    and named: "map_of kvs ''name'' = Some (JStr toolName)"
    and connected: "ensure_client rt (Own cfg) serverName st = (Inr (Own client), st1)"
    and answered: "callTool rt client toolName (callArgs kvs) (world st1) = (Inr response, w)"
    and unreadable: "outputText rt response = Inl e"
    and printable: "error_text e = Inr msg"
  shows "handleMcpFunctionCall rt servers serverName rawArguments callId st
           = (Inr [formatOutput rt callId (''MCP error: '' @ msg) 1
                     (getDuration (Date_now rt (world st1)) (Date_now rt w))],
              st1\<lparr>world := w, calls := calls st1 @ [CallTool client toolName (callArgs kvs)]\<rparr>)"
proof -
  from answered have c: "call_entry rt (Own client) toolName (callArgs kvs) st1
      = (Inr response, st1\<lparr>world := w, calls := calls st1 @ [CallTool client toolName (callArgs kvs)]\<rparr>)"
    by (simp add: call_entry_client)
  from invoke_unreadable [OF c unreadable printable, of callId] known parsed named connected show ?thesis
    by (simp add: handle_known)
qed




subsection \<open>The arguments of the remote call\<close>

text \<open>
  Claim C7, amended. When a call is routed and a client is there, \<^verbatim>\<open>callTool\<close> is called
  once, with the \<^verbatim>\<open>name\<close> of the payload and with these arguments: the \<^verbatim>\<open>args\<close> of the payload
  when it is there and not \<open>null\<close>; otherwise (absent, or \<open>null\<close>) the object of the other
  top-level properties of the payload, \<^verbatim>\<open>name\<close> and \<^verbatim>\<open>args\<close> removed.
\<close>

theorem arguments_of_invocation:
  assumes known: "map_of servers serverName = Some cfg"
    and parsed: "JSON_parse rt (paramsRaw rawArguments) = Some (JObj kvs)"
    and named: "map_of kvs ''name'' = Some (JStr toolName)"
    and connected: "ensure_client rt (Own cfg) serverName st = (Inr (Own client), st1)"
    and passed: "passed =
           (case map_of kvs ''args'' of
              None \<Rightarrow> JObj (filter (\<lambda>(k, v). k \<noteq> ''name'' \<and> k \<noteq> ''args'') kvs)
            | Some JNull \<Rightarrow> JObj (filter (\<lambda>(k, v). k \<noteq> ''name'' \<and> k \<noteq> ''args'') kvs)
            | Some args \<Rightarrow> args)"
  shows "calls (snd (handleMcpFunctionCall rt servers serverName rawArguments callId st))
           = calls st1 @ [CallTool client toolName passed] \<and>
         world (snd (handleMcpFunctionCall rt servers serverName rawArguments callId st))
           = snd (callTool rt client toolName passed (world st1))"
proof -
  have args: "passed = callArgs kvs"
    by (simp add: passed callArgs_def other_def split: option.splits json.splits)
  obtain result w where c: "callTool rt client toolName passed (world st1) = (result, w)"
    by (cases "callTool rt client toolName passed (world st1)") simp
  have "snd (handleMcpFunctionCall rt servers serverName rawArguments callId st)
      = snd (call_entry rt (Own client) toolName passed st1)"
    using known parsed named connected by (simp add: handle_known invoke_state args)
  also have "\<dots> = st1\<lparr>world := w, calls := calls st1 @ [CallTool client toolName passed]\<rparr>"
    by (simp add: call_entry_client [OF c])
  finally show ?thesis by (simp add: c)
qed

text \<open>
  For the arguments \<^verbatim>\<open>{"name":"t","foo":"bar"}\<close> the tool is called with \<^verbatim>\<open>{foo: "bar"}\<close>.
\<close>

theorem arguments_of_invocation_witness:
  \<open>JSON_parse demo (paramsRaw (Some ''{"name":"t","foo":"bar"}''))
     = Some (JObj [(''name'', JStr ''t''), (''foo'', JStr ''bar'')]) \<and>
   calls (snd (handleMcpFunctionCall demo demo_servers ''files'' (Some ''{"name":"t","foo":"bar"}'')
                 ''call_5'' (initial 1000)))
     = [Connect files_client, CallTool files_client ''t'' (JObj [(''foo'', JStr ''bar'')])] \<and>
   world (snd (handleMcpFunctionCall demo demo_servers ''files'' (Some ''{"name":"t","foo":"bar"}'')
                 ''call_5'' (initial 1000)))
     = 1050\<close>
  using arguments_of_invocation
    [OF demo_known_files demo_parsed_flat _ demo_connect_files refl, of "''t''" "''call_5''"]
    demo_parsed_flat
  by (simp add: demo_def demo_callTool_def)

text \<open>
  Claim C7 as it is stated fails: in \<^verbatim>\<open>{"name":"t","args":null,"foo":"bar"}\<close> the field
  \<^verbatim>\<open>args\<close> is present, and the tool is called with \<^verbatim>\<open>{foo: "bar"}\<close>, not with \<open>null\<close>.
\<close>

theorem null_args_are_replaced:
  \<open>JSON_parse demo ''{"name":"t","args":null,"foo":"bar"}''
     = Some (JObj [(''name'', JStr ''t''), (''args'', JNull), (''foo'', JStr ''bar'')]) \<and>
   map_of [(''name'', JStr ''t''), (''args'', JNull), (''foo'', JStr ''bar'')] ''args'' = Some JNull \<and>
   calls (snd (handleMcpFunctionCall demo demo_servers ''files''
                 (Some ''{"name":"t","args":null,"foo":"bar"}'') ''call_4'' (initial 1000)))
     = [Connect files_client, CallTool files_client ''t'' (JObj [(''foo'', JStr ''bar'')])]\<close>
  by (simp add: demo_simps model_simps)

subsection \<open>The duration in the records\<close>

text \<open>
  Claim C9. In the record of a routed call, whether \<^verbatim>\<open>callTool\<close> succeeded or failed,
  \<^verbatim>\<open>metadata.duration_seconds\<close> is computed from the milliseconds elapsed between the
  reading of the clock before the call and the reading after it: divided by 100, rounded
  to the nearest integer (a tie going up), divided by 10. It is within a twentieth of a
  second of the elapsed seconds. The record is there whenever what the call or the
  reading of its response throws has a text.
\<close>

theorem duration_of_record:
  assumes known: "map_of servers serverName = Some cfg"
    and parsed: "JSON_parse rt (paramsRaw rawArguments) = Some (JObj kvs)"
    and named: "map_of kvs ''name'' = Some (JStr toolName)"
    and connected: "ensure_client rt (Own cfg) serverName st = (Inr (Own client), st1)"
    and called: "callTool rt client toolName (callArgs kvs) (world st1) = (result, w)"
    and printable: "\<forall>e. result = Inl e \<or>
                         (\<exists>response. result = Inr response \<and> outputText rt response = Inl e) \<longrightarrow>
                       (\<exists>msg. error_text e = Inr msg)"
    and elapsed: "elapsed = Date_now rt w - Date_now rt (world st1)"
  shows "\<exists>out code d.
           fst (handleMcpFunctionCall rt servers serverName rawArguments callId st) =
             Inr [\<lparr>type = ''function_call_output'', call_id = callId,
                   output = JSON_stringify rt
                     (JObj [(''output'', JStr out),
                            (''metadata'',
                               JObj [(''exit_code'', JNum (of_int code)),
                                     (''duration_seconds'', JNum d)])])\<rparr>] \<and>
           (code = 0 \<or> code = 1) \<and>
           d = of_int (Math_round (of_int elapsed / 100)) / 10 \<and>
           \<bar>of_int (Math_round (of_int elapsed / 100)) - (of_int elapsed :: rat) / 100\<bar> \<le> 1 / 2 \<and>
           Math_round (of_int elapsed / 100) = (elapsed + 50) div 100 \<and>
           \<bar>d - of_int elapsed / 1000\<bar> \<le> 1 / 20"
proof -
  let ?d = "getDuration (Date_now rt (world st1)) (Date_now rt w)"
  have d: "?d = of_int (Math_round (of_int elapsed / 100)) / 10"
    by (simp add: getDuration_def elapsed)
  have near: "\<bar>?d - of_int elapsed / 1000\<bar> \<le> 1 / 20"
    unfolding elapsed by (rule getDuration_error)
  have "\<exists>out code. (code = 0 \<or> code = 1) \<and>
      fst (handleMcpFunctionCall rt servers serverName rawArguments callId st)
        = Inr [formatOutput rt callId out code ?d]"
  proof (cases result)
    case (Inl e)
    with printable obtain msg where "error_text e = Inr msg" by blast
    with remote_failure [OF known parsed named connected called [unfolded Inl], of callId]
    have "fst (handleMcpFunctionCall rt servers serverName rawArguments callId st)
        = Inr [formatOutput rt callId (''MCP error: '' @ msg) 1 ?d]"
      by simp
    then show ?thesis by blast
  next
    case (Inr response)
    show ?thesis
    proof (cases "outputText rt response")
      case unreadable: (Inl e)
      with printable Inr obtain msg where "error_text e = Inr msg" by blast
      with remote_unreadable [OF known parsed named connected called [unfolded Inr] unreadable, of _ callId]
      have "fst (handleMcpFunctionCall rt servers serverName rawArguments callId st)
          = Inr [formatOutput rt callId (''MCP error: '' @ msg) 1 ?d]"
        by simp
      then show ?thesis by blast
    next
      case readable: (Inr shown)
      from remote_answer [OF known parsed named connected called [unfolded Inr] readable, of callId]
      have "fst (handleMcpFunctionCall rt servers serverName rawArguments callId st)
          = Inr [formatOutput rt callId shown 0 ?d]"
        by simp
      then show ?thesis by blast
    qed
  qed
  then obtain out code where code: "code = 0 \<or> code = 1"
    and rec: "fst (handleMcpFunctionCall rt servers serverName rawArguments callId st)
        = Inr [formatOutput rt callId out code ?d]"
    by blast
  have shape: "fst (handleMcpFunctionCall rt servers serverName rawArguments callId st) =
             Inr [\<lparr>type = ''function_call_output'', call_id = callId,
                   output = JSON_stringify rt
                     (JObj [(''output'', JStr out),
                            (''metadata'',
                               JObj [(''exit_code'', JNum (of_int code)),
                                     (''duration_seconds'', JNum ?d)])])\<rparr>]"
    using rec by (simp add: formatOutput_def envelope_def)
  have nearest: "\<bar>of_int (Math_round (of_int elapsed / 100)) - (of_int elapsed :: rat) / 100\<bar> \<le> 1 / 2"
    by (rule Math_round_nearest)
  have half_up: "Math_round (of_int elapsed / 100) = (elapsed + 50) div 100"
    by (rule Math_round_hundredths)
  show ?thesis
    by (rule exI [of _ out], rule exI [of _ code], rule exI [of _ ?d])
      (intro conjI shape code d nearest half_up near)
qed

text \<open>
  The tool \<^verbatim>\<open>echo\<close> answers after 250 ms, and its record says 0.3 seconds; the tool
  \<^verbatim>\<open>boom\<close> fails after 120 ms, and its record says 0.1 seconds.
\<close>

theorem duration_of_record_witness:
  \<open>callTool demo files_client ''echo'' (JObj [(''x'', JNum 1)]) 1040
     = (Inr (JObj [(''content'', JArr [JObj [(''text'', JStr ''hi'')]])]), 1290) \<and>
   Math_round (of_int (1290 - 1040) / 100) = 3 \<and>
   getDuration 1040 1290 = 3 / 10 \<and>
   (\<exists>out code.
      fst (handleMcpFunctionCall demo demo_servers ''files'' (Some ''{"name":"echo","args":{"x":1}}'')
             ''call_1'' (initial 1000))
        = Inr [\<lparr>type = ''function_call_output'', call_id = ''call_1'',
                output = JSON_stringify demo
                  (JObj [(''output'', JStr out),
                         (''metadata'',
                            JObj [(''exit_code'', JNum (of_int code)),
                                  (''duration_seconds'', JNum (3 / 10))])])\<rparr>]) \<and>
   callTool demo files_client ''boom'' (JObj []) 1040 = (Inl (Error ''boom''), 1160) \<and>
   getDuration 1040 1160 = 1 / 10 \<and>
   (\<exists>out code.
      fst (handleMcpFunctionCall demo demo_servers ''files'' (Some ''{"name":"boom","args":{}}'')
             ''call_2'' (initial 1000))
        = Inr [\<lparr>type = ''function_call_output'', call_id = ''call_2'',
                output = JSON_stringify demo
                  (JObj [(''output'', JStr out),
                         (''metadata'',
                            JObj [(''exit_code'', JNum (of_int code)),
                                  (''duration_seconds'', JNum (1 / 10))])])\<rparr>])\<close>
proof -
  let ?S0 = "\<lparr>mcpClients = [(''files'', files_client)], world = 1040, calls = [Connect files_client]\<rparr>"
  have answered: "callTool demo files_client ''echo''
      (callArgs [(''name'', JStr ''echo''), (''args'', JObj [(''x'', JNum 1)])]) (world ?S0)
      = (Inr (JObj [(''content'', JArr [JObj [(''text'', JStr ''hi'')]])]), 1290)"
    by (simp add: demo_def demo_callTool_def callArgs_def)
  have rejected: "callTool demo files_client ''boom''
      (callArgs [(''name'', JStr ''boom''), (''args'', JObj [])]) (world ?S0)
      = (Inl (Error ''boom''), 1160)"
    by (simp add: demo_def demo_callTool_def callArgs_def)
  have elapsed: "(250::int) = Date_now demo 1290 - Date_now demo (world ?S0)"
    by (simp add: demo_def)
  have elapsed': "(120::int) = Date_now demo 1160 - Date_now demo (world ?S0)"
    by (simp add: demo_def)
  have named: "map_of [(''name'', JStr ''echo''), (''args'', JObj [(''x'', JNum 1)])] ''name''
      = Some (JStr ''echo'')"
    by simp
  have named': "map_of [(''name'', JStr ''boom''), (''args'', JObj [])] ''name'' = Some (JStr ''boom'')"
    by simp
  have printable: "\<forall>e. Inr (JObj [(''content'', JArr [JObj [(''text'', JStr ''hi'')]])]) = Inl e \<or>
      (\<exists>response. Inr (JObj [(''content'', JArr [JObj [(''text'', JStr ''hi'')]])]) = Inr response \<and>
         outputText demo response = Inl e) \<longrightarrow> (\<exists>msg. error_text e = Inr msg)"
    by (simp add: outputText_def read_prop_def Array_join_def)
  have printable': "\<forall>e. Inl (Error ''boom'') = Inl e \<or>
      (\<exists>response. Inl (Error ''boom'') = Inr response \<and> outputText demo response = Inl e)
      \<longrightarrow> (\<exists>msg. error_text e = Inr msg)"
    by simp
  from duration_of_record [OF demo_known_files demo_parsed_echo named demo_connect_files answered
      printable elapsed, of "''call_1''"]
  obtain out code d where
    rec: "fst (handleMcpFunctionCall demo demo_servers ''files'' (Some ''{\"name\":\"echo\",\"args\":{\"x\":1}}'')
             ''call_1'' (initial 1000))
        = Inr [\<lparr>type = ''function_call_output'', call_id = ''call_1'',
                output = JSON_stringify demo
                  (JObj [(''output'', JStr out),
                         (''metadata'',
                            JObj [(''exit_code'', JNum (of_int code)),
                                  (''duration_seconds'', JNum d)])])\<rparr>]"
    and d: "d = of_int (Math_round (of_int 250 / 100)) / 10"
    by blast
  from duration_of_record [OF demo_known_files demo_parsed_boom named' demo_connect_files rejected
      printable' elapsed', of "''call_2''"]
  obtain out' code' d' where
    rec': "fst (handleMcpFunctionCall demo demo_servers ''files'' (Some ''{\"name\":\"boom\",\"args\":{}}'')
             ''call_2'' (initial 1000))
        = Inr [\<lparr>type = ''function_call_output'', call_id = ''call_2'',
                output = JSON_stringify demo
                  (JObj [(''output'', JStr out'),
                         (''metadata'',
                            JObj [(''exit_code'', JNum (of_int code')),
                                  (''duration_seconds'', JNum d')])])\<rparr>]"
    and d': "d' = of_int (Math_round (of_int 120 / 100)) / 10"
    by blast
  have rounded: "Math_round (of_int (1290 - 1040) / 100) = 3"
    by (simp add: Math_round_def)
  have tenths: "getDuration 1040 1290 = 3 / 10"
    by (simp add: getDuration_def Math_round_def)
  have tenths': "getDuration 1040 1160 = 1 / 10"
    by (simp add: getDuration_def Math_round_def floor_rat_numeral)
  from d have d3: "d = 3 / 10"
    by (simp add: Math_round_def)
  from d' have d1: "d' = 1 / 10"
    by (simp add: Math_round_def floor_rat_numeral)
  from answered have called: "callTool demo files_client ''echo'' (JObj [(''x'', JNum 1)]) 1040
     = (Inr (JObj [(''content'', JArr [JObj [(''text'', JStr ''hi'')]])]), 1290)"
    by (simp add: callArgs_def)
  from rejected have called': "callTool demo files_client ''boom'' (JObj []) 1040
     = (Inl (Error ''boom''), 1160)"
    by (simp add: callArgs_def)
  from rec [unfolded d3] have shape: "\<exists>out code.
      fst (handleMcpFunctionCall demo demo_servers ''files'' (Some ''{\"name\":\"echo\",\"args\":{\"x\":1}}'')
             ''call_1'' (initial 1000))
        = Inr [\<lparr>type = ''function_call_output'', call_id = ''call_1'',
                output = JSON_stringify demo
                  (JObj [(''output'', JStr out),
                         (''metadata'',
                            JObj [(''exit_code'', JNum (of_int code)),
                                  (''duration_seconds'', JNum (3 / 10))])])\<rparr>]"
    by blast
  from rec' [unfolded d1] have shape': "\<exists>out code.
      fst (handleMcpFunctionCall demo demo_servers ''files'' (Some ''{\"name\":\"boom\",\"args\":{}}'')
             ''call_2'' (initial 1000))
        = Inr [\<lparr>type = ''function_call_output'', call_id = ''call_2'',
                output = JSON_stringify demo
                  (JObj [(''output'', JStr out),
                         (''metadata'',
                            JObj [(''exit_code'', JNum (of_int code)),
                                  (''duration_seconds'', JNum (1 / 10))])])\<rparr>]"
    by blast
  show ?thesis
    by (intro conjI called rounded tenths shape called' tenths' shape')
qed

subsection \<open>Connecting\<close>



lemma ensure_client_invalid_url:
  "lookup (mcpClients st) serverName = Undefined \<Longrightarrow> new_URL rt (url cfg) = Inl e \<Longrightarrow>
     ensure_client rt (Own cfg) serverName st = (Inl e, st)"
  by (simp add: ensure_client_def)

lemma ensure_client_refused:
  "lookup (mcpClients st) serverName = Undefined \<Longrightarrow> new_URL rt (url cfg) = Inr href \<Longrightarrow>
   connect rt (Client (ORIGIN rt) (CLI_VERSION rt) href) (world st) = (Some e, w) \<Longrightarrow>
     ensure_client rt (Own cfg) serverName st
       = (Inl e, st\<lparr>world := w,
                     calls := calls st @ [Connect (Client (ORIGIN rt) (CLI_VERSION rt) href)]\<rparr>)"
  by (simp add: ensure_client_def)

lemma ensure_client_accepted:
  "lookup (mcpClients st) serverName = Undefined \<Longrightarrow> new_URL rt (url cfg) = Inr href \<Longrightarrow>
   connect rt (Client (ORIGIN rt) (CLI_VERSION rt) href) (world st) = (None, w) \<Longrightarrow>
     ensure_client rt (Own cfg) serverName st
       = (Inr (Own (Client (ORIGIN rt) (CLI_VERSION rt) href)),
          st\<lparr>world := w,
             calls := calls st @ [Connect (Client (ORIGIN rt) (CLI_VERSION rt) href)],
             mcpClients := AList.update serverName (Client (ORIGIN rt) (CLI_VERSION rt) href)
                             (mcpClients st)\<rparr>)"
  by (simp add: ensure_client_def Let_def)

text \<open>
  Line 77 is reached with an own entry of the registry only: the name passed line 58, and
  the cache has nothing under it, not even an inherited member.
\<close>

lemma connects_own_entries:
  "lookup servers serverName \<noteq> Undefined \<Longrightarrow> lookup (mcpClients st) serverName = Undefined \<Longrightarrow>
     \<exists>cfg. lookup servers serverName = Own cfg"
  by (auto simp add: lookup_def split: option.splits if_splits)




text \<open>
A string that \<^verbatim>\<open>new URL\<close> refuses leaves the function the same way.
\<close>

lemma invalid_url_escapes:
  assumes known: "map_of servers serverName = Some cfg"
    and parsed: "JSON_parse rt (paramsRaw rawArguments) = Some (JObj kvs)"
    and named: "map_of kvs ''name'' = Some (JStr toolName)"
    and uncached: "lookup (mcpClients st) serverName = Undefined"
    and invalid: "new_URL rt (url cfg) = Inl e"
  shows "handleMcpFunctionCall rt servers serverName rawArguments callId st = (Inl e, st)"
  using assms by (simp add: handle_known ensure_client_invalid_url)

text \<open>
  Claim C8. The call is routed to a server of the registry, and line 74 finds nothing in
  the cache under its name, so the connection is attempted. When \<^verbatim>\<open>connect\<close> fails with
  \<open>e\<close>, the function is rejected with \<open>e\<close>: no record is returned, the cache is what it
  was, and it has no entry for the server.
\<close>

theorem connect_failure_propagates:
  assumes known: "map_of servers serverName = Some cfg"
    and parsed: "JSON_parse rt (paramsRaw rawArguments) = Some (JObj kvs)"
    and named: "map_of kvs ''name'' = Some (JStr toolName)"
    and uncached: "lookup (mcpClients st) serverName = Undefined"
    and valid: "new_URL rt (url cfg) = Inr href"
    and refused: "connect rt (Client (ORIGIN rt) (CLI_VERSION rt) href) (world st) = (Some e, w)"
  shows "fst (handleMcpFunctionCall rt servers serverName rawArguments callId st) = Inl e \<and>
         mcpClients (snd (handleMcpFunctionCall rt servers serverName rawArguments callId st))
           = mcpClients st \<and>
         map_of (mcpClients (snd (handleMcpFunctionCall rt servers serverName rawArguments callId st)))
           serverName = None"
proof -
  from uncached have absent: "map_of (mcpClients st) serverName = None"
    by (simp add: lookup_Undefined_iff)
  from ensure_client_refused [OF uncached valid refused] known parsed named absent show ?thesis
    by (simp add: handle_known)
qed

text \<open>
  The server \<^verbatim>\<open>down\<close> refuses the connection.
\<close>

theorem connect_failure_propagates_witness:
  \<open>map_of demo_servers ''down'' = Some \<lparr>url = ''http://down.example/sse''\<rparr> \<and>
   lookup (mcpClients (initial 1000)) ''down'' = Undefined \<and>
   connect demo (Client (ORIGIN demo) (CLI_VERSION demo) ''http://down.example/sse'') 1000
     = (Some (Error ''connect ECONNREFUSED''), 1030) \<and>
   fst (handleMcpFunctionCall demo demo_servers ''down'' (Some ''{"name":"echo","args":{"x":1}}'')
          ''call_6'' (initial 1000))
     = Inl (Error ''connect ECONNREFUSED'') \<and>
   mcpClients (snd (handleMcpFunctionCall demo demo_servers ''down''
                      (Some ''{"name":"echo","args":{"x":1}}'') ''call_6'' (initial 1000)))
     = []\<close>
  using connect_failure_propagates
    [of demo_servers "''down''" "\<lparr>url = ''http://down.example/sse''\<rparr>" demo
        \<open>Some ''{"name":"echo","args":{"x":1}}''\<close>
        "[(''name'', JStr ''echo''), (''args'', JObj [(''x'', JNum 1)])]" "''echo''"
        "initial 1000" "''http://down.example/sse''" "Error ''connect ECONNREFUSED''" 1030 "''call_6''"]
    demo_parsed_echo
  by (simp add: demo_def demo_servers_def demo_connect_def initial_def lookup_def
      Object_prototype_names_def)

subsection \<open>The connection cache\<close>













text \<open>
  A server whose name \<^verbatim>\<open>Object.prototype\<close> defines is never connected: line 74 finds the
  inherited member, and line 88 fails on it.
\<close>

lemma prototype_name_never_connects:
  \<open>map_of prototype_servers ''constructor'' = Some \<lparr>url = ''http://ctor.example/sse''\<rparr> \<and>
   handleMcpFunctionCall demo prototype_servers ''constructor'' (Some ''{"name":"echo","args":{"x":1}}'')
       ''call_1'' (initial 1000)
     = (Inr [formatOutput demo ''call_1''
               ''MCP error: mcpClients[serverName].callTool is not a function'' 1 0],
        initial 1000) \<and>
   calls (run demo
     [(prototype_servers, ''constructor'', Some ''{"name":"echo","args":{"x":1}}'', ''call_1''),
      (prototype_servers, ''constructor'', Some ''{"name":"echo","args":{"x":1}}'', ''call_2'')]
     (initial 1000)) = []\<close>
  by (simp add: demo_simps model_simps)

end
